theory Spec2Isabelle
  imports Main
begin

section \<open>JavaScript strings\<close>

text \<open>
  Strings are lists of 8-bit characters, read as the code units 0 to 255 of a JavaScript
  string; a string with a code unit above 255 is outside the model. White space and line
  terminators are exact in that range. The case mappings change the ASCII letters only:
  every suffix, marker and separator the routes compare against is ASCII, so the case of
  an accented letter is never observed.
\<close>

definition newline :: char where
  "newline = CHR 0x0A"

definition carriage_return :: char where
  "carriage_return = CHR 0x0D"

definition isUpper :: "char \<Rightarrow> bool" where
  "isUpper c = (65 \<le> (of_char c :: nat) \<and> (of_char c :: nat) \<le> 90)"

definition toLowerChar :: "char \<Rightarrow> char" where
  "toLowerChar c = (if isUpper c then char_of ((of_char c :: nat) + 32) else c)"

definition isLower :: "char \<Rightarrow> bool" where
  "isLower c = (97 \<le> (of_char c :: nat) \<and> (of_char c :: nat) \<le> 122)"

definition toUpperChar :: "char \<Rightarrow> char" where
  "toUpperChar c = (if isLower c then char_of ((of_char c :: nat) - 32) else c)"

text \<open>\<open>String.prototype.toLowerCase\<close> and \<open>toUpperCase\<close>.\<close>

definition toLowerCase :: "string \<Rightarrow> string" where
  "toLowerCase s = map toLowerChar s"

definition toUpperCase :: "string \<Rightarrow> string" where
  "toUpperCase s = map toUpperChar s"

text \<open>\<open>String.prototype.startsWith\<close> and \<open>endsWith\<close>, both at the default position.\<close>

definition startsWith :: "string \<Rightarrow> string \<Rightarrow> bool" where
  "startsWith s p = (take (length p) s = p)"

definition endsWith :: "string \<Rightarrow> string \<Rightarrow> bool" where
  "endsWith s p = (length p \<le> length s \<and> drop (length s - length p) s = p)"

text \<open>\<open>String.prototype.includes\<close>: the pattern starts at some position of the string.\<close>

fun includes_str :: "string \<Rightarrow> string \<Rightarrow> bool" where
  "includes_str [] p = (p = [])"
| "includes_str (c # cs) p = (startsWith (c # cs) p \<or> includes_str cs p)"

text \<open>
  White space as \<open>trim\<close>, \<open>parseInt\<close> and the regular expression class \<open>\s\<close> see it
  (tab, line feed, vertical tab, form feed, carriage return, space and the no-break space
  U+00A0), and the line terminators that the regular expression \<open>.\<close> refuses.
\<close>

definition isSpace :: "char \<Rightarrow> bool" where
  "isSpace c =
     ((9 \<le> (of_char c :: nat) \<and> (of_char c :: nat) \<le> 13) \<or> (of_char c :: nat) = 32 \<or>
      (of_char c :: nat) = 160)"

definition isLineTerminator :: "char \<Rightarrow> bool" where
  "isLineTerminator c = (c = newline \<or> c = carriage_return)"

definition trim :: "string \<Rightarrow> string" where
  "trim s = rev (dropWhile isSpace (rev (dropWhile isSpace s)))"

text \<open>\<open>s.split('\n')\<close>: the empty string splits into one empty piece.\<close>

fun split_acc :: "string \<Rightarrow> string \<Rightarrow> string list" where
  "split_acc cur [] = [rev cur]"
| "split_acc cur (c # cs) =
     (if c = newline then rev cur # split_acc [] cs else split_acc (c # cur) cs)"

definition split_newline :: "string \<Rightarrow> string list" where
  "split_newline s = split_acc [] s"

text \<open>
  \<open>s.replace(pat, rep)\<close> with a string pattern: only the first occurrence is replaced.
  The routes call it with the replacement \<open>''\<close>, which has no \<open>$\<close> pattern.
\<close>

fun replace_first :: "string \<Rightarrow> string \<Rightarrow> string \<Rightarrow> string" where
  "replace_first pat rep [] = (if pat = [] then rep else [])"
| "replace_first pat rep (c # cs) =
     (if startsWith (c # cs) pat then rep @ drop (length pat) (c # cs)
      else c # replace_first pat rep cs)"

text \<open>\<open>s.replace(/^\//, '')\<close>: one leading slash is removed.\<close>

definition strip_leading_slash :: "string \<Rightarrow> string" where
  "strip_leading_slash s = (case s of [] \<Rightarrow> [] | c # cs \<Rightarrow> if c = CHR ''/'' then cs else c # cs)"

text \<open>
  \<open>path.join\<close> of a directory and a relative name. Normalisation is left out: the
  routes join the working directory or the temporary directory with fixed plain names.
\<close>

definition join :: "string \<Rightarrow> string \<Rightarrow> string" where
  "join a b = a @ ''/'' @ b"

section \<open>Archive kind detection (upload-system/route.ts)\<close>

datatype FileType = Tar | TarGz | Zip | Rar | Unknown

text \<open>\<open>detectFileType\<close>, lines 27 to 34.\<close>

definition detectFileType :: "string \<Rightarrow> FileType" where
  "detectFileType filename =
     (let lowerName = toLowerCase filename in
      if endsWith lowerName ''.tar.gz'' \<or> endsWith lowerName ''.tgz'' then TarGz
      else if endsWith lowerName ''.tar'' then Tar
      else if endsWith lowerName ''.zip'' then Zip
      else if endsWith lowerName ''.rar'' then Rar
      else Unknown)"

text \<open>
  The specification of \<open>Classify\<close>, in its own words: a case-insensitive suffix match,
  the suffixes tried in the order given. Two characters match without regard to case
  when they are the same letter in either case; a name has a suffix without regard to
  case when its last characters match the suffix one by one.
\<close>

definition same_ignoring_case :: "char \<Rightarrow> char \<Rightarrow> bool" where
  "same_ignoring_case a b = (toUpperChar a = toUpperChar b)"

definition has_suffix_ci :: "string \<Rightarrow> string \<Rightarrow> bool" where
  "has_suffix_ci filename suf =
     (length suf \<le> length filename \<and>
      list_all2 same_ignoring_case (drop (length filename - length suf) filename) suf)"

definition Classify_spec :: "string \<Rightarrow> FileType" where
  "Classify_spec filename =
     (if has_suffix_ci filename ''.tar.gz'' \<or> has_suffix_ci filename ''.tgz'' then TarGz
      else if has_suffix_ci filename ''.tar'' then Tar
      else if has_suffix_ci filename ''.zip'' then Zip
      else if has_suffix_ci filename ''.rar'' then Rar
      else Unknown)"

section \<open>The outside world, the status singleton and the effects of a request\<close>

text \<open>
  A route handler talks to the file system, to child processes and to the console. Each
  such call is recorded as an event together with its outcome. A rejected promise or a
  thrown error is carried as its \<open>message\<close>; every modelled call rejects with an
  \<open>Error\<close> object, so \<open>error instanceof Error\<close> holds in the handlers' \<open>catch\<close> blocks.
\<close>

record upload_file =
  file_name :: string
  file_size :: nat

text \<open>
  What \<open>formData.get('file')\<close> can give: nothing, a text field (the cast \<open>as File\<close>
  is unchecked) or a file.
\<close>

datatype form_entry = NoEntry | TextEntry string | FileEntry upload_file

datatype event =
    EvLog string
  | EvExists string bool
  | EvMkdir string "string option"
  | EvRm string "string option"
  | EvWrite string string "string option"
  | EvExec string "string + string \<times> string"
  | EvStat string "string + nat"
  | EvFormData "string + form_entry"
  | EvArrayBuffer "string + string"

text \<open>
  The world answers every call. The answer may depend on everything that has happened
  so far, so the same path can exist at one moment and not at another. For the calls
  that can fail, \<open>None\<close> (or \<open>Inr\<close>) is success and \<open>Some msg\<close> (or \<open>Inl msg\<close>) is a
  rejection with that message; a child process that exits with a non-zero code, runs
  into its timeout or overflows \<open>maxBuffer\<close> rejects.
\<close>

record world =
  cwd :: string
  tmpdir :: string
  dateNow :: "event list \<Rightarrow> nat"
  isoNow :: "event list \<Rightarrow> string"
  toFixedMB :: "nat \<Rightarrow> string"
  w_existsSync :: "event list \<Rightarrow> string \<Rightarrow> bool"
  w_mkdir :: "event list \<Rightarrow> string \<Rightarrow> string option"
  w_rm :: "event list \<Rightarrow> string \<Rightarrow> string option"
  w_writeFile :: "event list \<Rightarrow> string \<Rightarrow> string \<Rightarrow> string option"
  w_exec :: "event list \<Rightarrow> string \<Rightarrow> string + string \<times> string"
  w_stat :: "event list \<Rightarrow> string \<Rightarrow> string + nat"

text \<open>
  What an upload request carries: the outcome of parsing its form (\<open>request.formData()\<close>)
  and of reading the bytes of the uploaded file (\<open>file.arrayBuffer()\<close>).
\<close>

record request =
  req_formData :: "string + form_entry"
  req_arrayBuffer :: "string + string"

text \<open>
  The state of the server process as one request sees it: \<open>cell\<close> is the module-level
  status object, \<open>seen\<close> lists every value the object has held after an assignment
  (oldest first), \<open>trace\<close> lists the events.
\<close>

record 'a sys =
  cell :: 'a
  seen :: "'a list"
  trace :: "event list"

type_synonym ('a, 'r) io = "'a sys \<Rightarrow> (string + 'r) \<times> 'a sys"

definition ret :: "'r \<Rightarrow> ('a, 'r) io" where
  "ret r s = (Inr r, s)"

definition throw :: "string \<Rightarrow> ('a, 'r) io" where
  "throw e s = (Inl e, s)"

definition bind :: "('a, 'r) io \<Rightarrow> ('r \<Rightarrow> ('a, 'q) io) \<Rightarrow> ('a, 'q) io" where
  "bind m k s = (case m s of (Inl e, s') \<Rightarrow> (Inl e, s') | (Inr r, s') \<Rightarrow> k r s')"

definition discard :: "('a, 'r) io \<Rightarrow> ('a, unit) io" where
  "discard m = bind m (\<lambda>_. ret ())"

text \<open>A sequence of statements: the first one that throws ends the sequence.\<close>

fun block :: "('a, unit) io list \<Rightarrow> ('a, unit) io" where
  "block [] = ret ()"
| "block (m # ms) = bind m (\<lambda>_. block ms)"

text \<open>\<open>try { body } catch (e) { handler }\<close>.\<close>

definition try_catch :: "('a, 'r) io \<Rightarrow> (string \<Rightarrow> ('a, 'r) io) \<Rightarrow> ('a, 'r) io" where
  "try_catch body handler s =
     (case body s of (Inl e, s') \<Rightarrow> handler e s' | (Inr r, s') \<Rightarrow> (Inr r, s'))"

text \<open>\<open>for (const x of xs) { body }\<close>.\<close>

fun forEach :: "'x list \<Rightarrow> ('x \<Rightarrow> ('a, unit) io) \<Rightarrow> ('a, unit) io" where
  "forEach [] f = ret ()"
| "forEach (x # xs) f = bind (f x) (\<lambda>_. forEach xs f)"

definition emit :: "event \<Rightarrow> 'a sys \<Rightarrow> 'a sys" where
  "emit e s = s\<lparr>trace := trace s @ [e]\<rparr>"

text \<open>An assignment to the status object or to one of its fields.\<close>

definition assign :: "('a \<Rightarrow> 'a) \<Rightarrow> ('a, unit) io" where
  "assign f s = (Inr (), s\<lparr>cell := f (cell s), seen := seen s @ [f (cell s)]\<rparr>)"

text \<open>Reading the status object.\<close>

definition read_cell :: "('a, 'a) io" where
  "read_cell s = (Inr (cell s), s)"

text \<open>\<open>Date.now()\<close>: reading the clock leaves no event.\<close>

definition now :: "world \<Rightarrow> ('a, nat) io" where
  "now w s = (Inr (dateNow w (trace s)), s)"

text \<open>
  \<open>console.log\<close> and \<open>console.error\<close>; the event keeps the fixed text of the message.
\<close>

definition console_log :: "string \<Rightarrow> ('a, unit) io" where
  "console_log m s = (Inr (), emit (EvLog m) s)"

definition existsSync :: "world \<Rightarrow> string \<Rightarrow> ('a, bool) io" where
  "existsSync w p s = (let b = w_existsSync w (trace s) p in (Inr b, emit (EvExists p b) s))"

definition settle :: "string option \<Rightarrow> string + unit" where
  "settle r = (case r of None \<Rightarrow> Inr () | Some e \<Rightarrow> Inl e)"

definition mkdir :: "world \<Rightarrow> string \<Rightarrow> ('a, unit) io" where
  "mkdir w p s = (let r = w_mkdir w (trace s) p in (settle r, emit (EvMkdir p r) s))"

definition rm :: "world \<Rightarrow> string \<Rightarrow> ('a, unit) io" where
  "rm w p s = (let r = w_rm w (trace s) p in (settle r, emit (EvRm p r) s))"

definition writeFile :: "world \<Rightarrow> string \<Rightarrow> string \<Rightarrow> ('a, unit) io" where
  "writeFile w p content s =
     (let r = w_writeFile w (trace s) p content in (settle r, emit (EvWrite p content r) s))"

definition execAsync :: "world \<Rightarrow> string \<Rightarrow> ('a, string \<times> string) io" where
  "execAsync w command s = (let r = w_exec w (trace s) command in (r, emit (EvExec command r) s))"

definition stat :: "world \<Rightarrow> string \<Rightarrow> ('a, nat) io" where
  "stat w p s = (let r = w_stat w (trace s) p in (r, emit (EvStat p r) s))"

definition formData :: "request \<Rightarrow> ('a, form_entry) io" where
  "formData req s = (req_formData req, emit (EvFormData (req_formData req)) s)"

definition arrayBuffer :: "request \<Rightarrow> ('a, string) io" where
  "arrayBuffer req s = (req_arrayBuffer req, emit (EvArrayBuffer (req_arrayBuffer req)) s)"

text \<open>The events of a request: what the trace has gained since the request began.\<close>

definition events_since :: "'a sys \<Rightarrow> 'a sys \<Rightarrow> event list" where
  "events_since s0 s = drop (length (trace s0)) (trace s)"

text \<open>
  Calls that change the file system: creating and removing directories, writing files,
  and running a child process (every command the routes run can write).
\<close>

fun fs_mutation :: "event \<Rightarrow> bool" where
  "fs_mutation (EvMkdir p r) = True"
| "fs_mutation (EvRm p r) = True"
| "fs_mutation (EvWrite p c r) = True"
| "fs_mutation (EvExec c r) = True"
| "fs_mutation e = False"

text \<open>The JSON bodies and the responses of both routes.\<close>

datatype 'b json = ErrorOnly string | StatusError string | Payload 'b

record 'b response =
  http_status :: nat
  body :: "'b json"

definition json_response :: "nat \<Rightarrow> 'b json \<Rightarrow> 'b response" where
  "json_response code b = \<lparr>http_status = code, body = b\<rparr>"

definition quoted :: "string \<Rightarrow> string" where
  "quoted s = [CHR 0x22] @ s @ [CHR 0x22]"

text \<open>\<open>Array.prototype.join\<close> with a separator.\<close>

fun join_with :: "string \<Rightarrow> string list \<Rightarrow> string" where
  "join_with sep [] = []"
| "join_with sep [x] = x"
| "join_with sep (x # y # ys) = x @ sep @ join_with sep (y # ys)"

section \<open>The deploy route (deploy-route.ts)\<close>

text \<open>
  The user-visible messages of both routes are Arabic string literals in the source;
  here each one is given by its English meaning.
\<close>

datatype deploy_phase = Idle | Deploying | Installing | Migrating | DeploySuccess | DeployError

text \<open>\<open>deployStatus\<close>, lines 11 to 17.\<close>

record deploy_status =
  d_status :: deploy_phase
  d_message :: string
  d_progress :: nat
  d_error :: string
  d_step :: string

definition deployStatus_initial :: deploy_status where
  "deployStatus_initial =
     \<lparr>d_status = Idle, d_message = [], d_progress = 0, d_error = [], d_step = []\<rparr>"

record step_report =
  step :: string
  step_status :: string
  step_message :: string

record deploy_payload =
  p_status :: string
  p_message :: string
  p_progress :: nat
  steps :: "step_report list"

definition excludeList :: "string list" where
  "excludeList =
     [''node_modules'', ''.next'', ''.git'', ''dev.log'', ''server.log'', ''extracted-system'',
      ''.backup'']"

definition dirsToCopy :: "string list" where
  "dirsToCopy = [''src'', ''public'', ''prisma'', ''db'', ''mini-services'', ''examples'']"

definition filesToCopy :: "string list" where
  "filesToCopy =
     [''package.json'', ''tsconfig.json'', ''tailwind.config.ts'', ''next.config.ts'',
      ''Caddyfile'', ''eslint.config.mjs'', ''postcss.config.mjs'']"

definition rsync_command :: "string \<Rightarrow> string \<Rightarrow> string" where
  "rsync_command extractedDir projectRoot =
     (let excludeArgs = join_with '' '' (map (\<lambda>item. ''--exclude='' @ quoted item) excludeList)
      in ''rsync -av '' @ excludeArgs @ '' '' @ quoted (extractedDir @ ''/'') @ '' '' @
         quoted (projectRoot @ ''/'') @ '' 2>&1'')"

text \<open>Step 1, lines 38 to 46.\<close>

definition step_backup :: "world \<Rightarrow> string \<Rightarrow> (deploy_status, unit) io" where
  "step_backup w projectRoot =
     (let backupDir = join projectRoot ''.backup'' in
      block
       [assign (\<lambda>d. d\<lparr>d_message := ''Creating a backup...''\<rparr>),
        assign (\<lambda>d. d\<lparr>d_step := ''backup''\<rparr>),
        assign (\<lambda>d. d\<lparr>d_progress := 10\<rparr>),
        bind (existsSync w backupDir) (\<lambda>found. if \<not> found then mkdir w backupDir else ret ())])"

text \<open>The bodies of the two loops of the \<open>cp\<close> fallback, lines 76 to 94.\<close>

definition copy_dir :: "world \<Rightarrow> string \<Rightarrow> string \<Rightarrow> string \<Rightarrow> ('a, unit) io" where
  "copy_dir w extractedDir projectRoot dir =
     (let srcDir = join extractedDir dir; destDir = join projectRoot dir in
      bind (existsSync w srcDir) (\<lambda>srcFound.
        if srcFound then
          block
           [bind (existsSync w destDir) (\<lambda>destFound. if destFound then rm w destDir else ret ()),
            mkdir w destDir,
            discard (execAsync w (''cp -r '' @ quoted (srcDir @ ''/.'') @ '' '' @
                                    quoted (destDir @ ''/'')))]
        else ret ()))"

definition copy_file :: "world \<Rightarrow> string \<Rightarrow> string \<Rightarrow> string \<Rightarrow> ('a, unit) io" where
  "copy_file w extractedDir projectRoot file =
     (let srcFile = join extractedDir file; destFile = join projectRoot file in
      bind (existsSync w srcFile) (\<lambda>srcFound.
        if srcFound then discard (execAsync w (''cp '' @ quoted srcFile @ '' '' @ quoted destFile))
        else ret ()))"

text \<open>Step 2, lines 48 to 98: \<open>rsync\<close>, and the \<open>cp\<close> fallback when \<open>rsync\<close> rejects.\<close>

definition step_copy :: "world \<Rightarrow> string \<Rightarrow> string \<Rightarrow> (deploy_status, unit) io" where
  "step_copy w projectRoot extractedDir =
     block
      [assign (\<lambda>d. d\<lparr>d_message := ''Copying the system files...''\<rparr>),
       assign (\<lambda>d. d\<lparr>d_step := ''copy''\<rparr>),
       assign (\<lambda>d. d\<lparr>d_progress := 20\<rparr>),
       try_catch (discard (execAsync w (rsync_command extractedDir projectRoot)))
         (\<lambda>rsyncError.
            block
             [console_log ''rsync failed, using cp:'',
              forEach dirsToCopy (copy_dir w extractedDir projectRoot),
              forEach filesToCopy (copy_file w extractedDir projectRoot)]),
       assign (\<lambda>d. d\<lparr>d_progress := 50\<rparr>),
       assign (\<lambda>d. d\<lparr>d_message := ''The files were copied''\<rparr>)]"

text \<open>Step 3, lines 100 to 118.\<close>

definition step_install :: "world \<Rightarrow> (deploy_status, unit) io" where
  "step_install w =
     block
      [assign (\<lambda>d. d\<lparr>d_status := Installing\<rparr>),
       assign (\<lambda>d. d\<lparr>d_message := ''Installing the dependencies...''\<rparr>),
       assign (\<lambda>d. d\<lparr>d_step := ''install''\<rparr>),
       assign (\<lambda>d. d\<lparr>d_progress := 60\<rparr>),
       try_catch
         (block
           [discard (execAsync w ''bun install''),
            console_log ''Install output:'',
            assign (\<lambda>d. d\<lparr>d_message := ''The dependencies were installed''\<rparr>),
            assign (\<lambda>d. d\<lparr>d_progress := 80\<rparr>)])
         (\<lambda>installError.
            block
             [console_log ''Install error (non-critical):'',
              assign (\<lambda>d. d\<lparr>d_message := ''Warning: bun install may have to be run by hand''\<rparr>),
              assign (\<lambda>d. d\<lparr>d_progress := 80\<rparr>)])]"

text \<open>Step 4, lines 120 to 134.\<close>

definition step_prisma :: "world \<Rightarrow> string \<Rightarrow> (deploy_status, unit) io" where
  "step_prisma w projectRoot =
     (let prismaSchema = join projectRoot ''prisma/schema.prisma'' in
      block
       [assign (\<lambda>d. d\<lparr>d_status := Migrating\<rparr>),
        assign (\<lambda>d. d\<lparr>d_message := ''Preparing the database...''\<rparr>),
        assign (\<lambda>d. d\<lparr>d_step := ''prisma''\<rparr>),
        assign (\<lambda>d. d\<lparr>d_progress := 85\<rparr>),
        bind (existsSync w prismaSchema) (\<lambda>found.
          if found then
            try_catch
              (block
                [discard (execAsync w ''bun run db:generate''),
                 assign (\<lambda>d. d\<lparr>d_message := ''Prisma was prepared''\<rparr>)])
              (\<lambda>prismaError. console_log ''Prisma generate error:'')
          else ret ())])"

text \<open>Step 5, lines 136 to 151.\<close>

definition step_database :: "world \<Rightarrow> string \<Rightarrow> string \<Rightarrow> (deploy_status, unit) io" where
  "step_database w projectRoot extractedDir =
     (let sourceDb = join extractedDir ''mushaf_source.db'';
          destDb = join projectRoot ''prisma/dev.db'' in
      bind (existsSync w sourceDb) (\<lambda>found.
        if found then
          try_catch
            (let prismaDir = join projectRoot ''prisma'' in
             block
              [bind (existsSync w prismaDir) (\<lambda>dirFound.
                 if \<not> dirFound then mkdir w prismaDir else ret ()),
               discard (execAsync w (''cp '' @ quoted sourceDb @ '' '' @ quoted destDb)),
               assign (\<lambda>d. d\<lparr>d_message := ''The database was copied''\<rparr>)])
            (\<lambda>dbError. console_log ''Database copy error:'')
        else ret ()))"

text \<open>Step 6, lines 157 to 159: the restart sentinel.\<close>

definition restartFile :: "world \<Rightarrow> string" where
  "restartFile w = join (cwd w) ''.restart''"

definition step_restart :: "world \<Rightarrow> (deploy_status, unit) io" where
  "step_restart w s = writeFile w (restartFile w) (isoNow w (trace s)) s"

text \<open>Lines 29 to 155: everything between the existence check and the sentinel.\<close>

definition deploy_steps :: "world \<Rightarrow> string \<Rightarrow> string \<Rightarrow> (deploy_status, unit) io" where
  "deploy_steps w projectRoot extractedDir =
     block
      [assign (\<lambda>_. \<lparr>d_status = Deploying, d_message = ''Starting the deployment...'',
                     d_progress = 5, d_error = [], d_step = ''init''\<rparr>),
       step_backup w projectRoot,
       step_copy w projectRoot extractedDir,
       step_install w,
       step_prisma w projectRoot,
       step_database w projectRoot extractedDir,
       assign (\<lambda>d. d\<lparr>d_status := DeploySuccess\<rparr>),
       assign (\<lambda>d. d\<lparr>d_message := ''The system was deployed! Restarting...''\<rparr>),
       assign (\<lambda>d. d\<lparr>d_progress := 100\<rparr>)]"

text \<open>The success response, lines 161 to 172.\<close>

definition deploy_success :: "deploy_payload response" where
  "deploy_success =
     json_response 200 (Payload
       \<lparr>p_status = ''success'', p_message = ''The system was deployed!'', p_progress = 100,
        steps =
          [\<lparr>step = ''backup'', step_status = ''done'', step_message = ''A backup was made''\<rparr>,
           \<lparr>step = ''copy'', step_status = ''done'', step_message = ''The system files were copied''\<rparr>,
           \<lparr>step = ''install'', step_status = ''done'',
            step_message = ''The dependencies were installed''\<rparr>,
           \<lparr>step = ''prisma'', step_status = ''done'', step_message = ''The database was prepared''\<rparr>,
           \<lparr>step = ''restart'', step_status = ''done'', step_message = ''Restarting''\<rparr>]\<rparr>)"

definition no_extraction_found :: "deploy_payload response" where
  "no_extraction_found =
     json_response 400 (ErrorOnly ''No extracted files were found. Upload the file first.'')"

text \<open>The body of the \<open>try\<close>, lines 21 to 172.\<close>

definition deploy_try :: "world \<Rightarrow> (deploy_status, deploy_payload response) io" where
  "deploy_try w =
     (let projectRoot = cwd w; extractedDir = join projectRoot ''extracted-system'' in
      bind (existsSync w extractedDir) (\<lambda>found.
        if \<not> found then ret no_extraction_found
        else
          bind (deploy_steps w projectRoot extractedDir) (\<lambda>_.
          bind (step_restart w) (\<lambda>_.
          ret deploy_success))))"

text \<open>The \<open>catch\<close>, lines 174 to 183.\<close>

definition deploy_catch ::
  "string \<Rightarrow> deploy_status sys \<Rightarrow> deploy_payload response \<times> deploy_status sys" where
  "deploy_catch e s =
     (let s1 = snd (console_log ''Deploy error:'' s);
          s2 = snd (assign (\<lambda>d. d\<lparr>d_status := DeployError\<rparr>) s1);
          s3 = snd (assign (\<lambda>d. d\<lparr>d_error := e\<rparr>) s2)
      in (json_response 500 (StatusError (d_error (cell s3))), s3))"

text \<open>\<open>POST\<close>, lines 19 to 184.\<close>

definition deploy_POST ::
  "world \<Rightarrow> deploy_status sys \<Rightarrow> deploy_payload response \<times> deploy_status sys" where
  "deploy_POST w s =
     (case deploy_try w s of
        (Inr resp, s') \<Rightarrow> (resp, s')
      | (Inl e, s') \<Rightarrow> deploy_catch e s')"

text \<open>\<open>GET\<close>, lines 186 to 188.\<close>

definition deploy_GET :: "deploy_status sys \<Rightarrow> deploy_status" where
  "deploy_GET s = cell s"

text \<open>The restart sentinel was written: a write to it that did not reject is on record.\<close>

fun sentinel_write :: "world \<Rightarrow> event \<Rightarrow> bool" where
  "sentinel_write w (EvWrite p c r) = (p = restartFile w \<and> r = None)"
| "sentinel_write w e = False"

definition sentinel_written :: "world \<Rightarrow> event list \<Rightarrow> bool" where
  "sentinel_written w evs = list_ex (sentinel_write w) evs"

text \<open>The \<open>steps\<close> array of a response (empty when the body has none).\<close>

definition reported_steps :: "deploy_payload response \<Rightarrow> step_report list" where
  "reported_steps resp = (case body resp of Payload p \<Rightarrow> steps p | _ \<Rightarrow> [])"

text \<open>
  The pipeline in two parts: lines 29 to 98 (the reset, the backup step and the copy
  step) and lines 100 to 155 (the install, Prisma and data-copy steps and the success
  assignments).
\<close>

definition deploy_through_copy :: "world \<Rightarrow> string \<Rightarrow> string \<Rightarrow> (deploy_status, unit) io" where
  "deploy_through_copy w projectRoot extractedDir =
     block
      [assign (\<lambda>_. \<lparr>d_status = Deploying, d_message = ''Starting the deployment...'',
                     d_progress = 5, d_error = [], d_step = ''init''\<rparr>),
       step_backup w projectRoot,
       step_copy w projectRoot extractedDir]"

definition deploy_after_copy :: "world \<Rightarrow> string \<Rightarrow> string \<Rightarrow> (deploy_status, unit) io" where
  "deploy_after_copy w projectRoot extractedDir =
     block
      [step_install w,
       step_prisma w projectRoot,
       step_database w projectRoot extractedDir,
       assign (\<lambda>d. d\<lparr>d_status := DeploySuccess\<rparr>),
       assign (\<lambda>d. d\<lparr>d_message := ''The system was deployed! Restarting...''\<rparr>),
       assign (\<lambda>d. d\<lparr>d_progress := 100\<rparr>)]"

text \<open>
  A request that has found the extracted tree: the outcome of its first part, and its
  state when it comes to write the restart sentinel.
\<close>

definition copy_outcome :: "world \<Rightarrow> deploy_status sys \<Rightarrow> (string + unit) \<times> deploy_status sys" where
  "copy_outcome w s =
     deploy_through_copy w (cwd w) (join (cwd w) ''extracted-system'')
       (emit (EvExists (join (cwd w) ''extracted-system'') True) s)"

definition before_restart :: "world \<Rightarrow> deploy_status sys \<Rightarrow> deploy_status sys" where
  "before_restart w s =
     snd (deploy_after_copy w (cwd w) (join (cwd w) ''extracted-system'') (snd (copy_outcome w s)))"

section \<open>The upload route (upload-system/route.ts)\<close>

subsection \<open>Numbers and text\<close>

text \<open>\<open>String(n)\<close> for a natural number, as a template literal renders it.\<close>

fun show_nat :: "nat \<Rightarrow> string" where
  "show_nat n =
     (if n < 10 then [char_of (48 + n)] else show_nat (n div 10) @ [char_of (48 + n mod 10)])"

declare show_nat.simps [simp del]

text \<open>
  \<open>parseInt(s)\<close> without a radix: leading white space and one sign are skipped, a prefix
  \<open>0x\<close> or \<open>0X\<close> selects radix 16, and the longest run of digits is read. \<open>None\<close> is
  \<open>NaN\<close>. Counts of files stay far below \<open>2 ^ 53\<close>, where JavaScript numbers are exact.
\<close>

definition digit_of :: "char \<Rightarrow> nat option" where
  "digit_of c =
     (let n = (of_char c :: nat) in
      if 48 \<le> n \<and> n \<le> 57 then Some (n - 48)
      else if 97 \<le> n \<and> n \<le> 122 then Some (n - 87)
      else if 65 \<le> n \<and> n \<le> 90 then Some (n - 55)
      else None)"

definition is_digit_in :: "nat \<Rightarrow> char \<Rightarrow> bool" where
  "is_digit_in radix c = (case digit_of c of Some d \<Rightarrow> d < radix | None \<Rightarrow> False)"

definition digits_value :: "nat \<Rightarrow> string \<Rightarrow> nat" where
  "digits_value radix ds =
     foldl (\<lambda>acc c. acc * radix + (case digit_of c of Some d \<Rightarrow> d | None \<Rightarrow> 0)) 0 ds"

definition parse_digits :: "nat \<Rightarrow> string \<Rightarrow> nat option" where
  "parse_digits radix s =
     (let z = takeWhile (is_digit_in radix) s in
      if z = [] then None else Some (digits_value radix z))"

definition parse_unsigned :: "string \<Rightarrow> nat option" where
  "parse_unsigned s =
     (if startsWith s ''0x'' \<or> startsWith s ''0X'' then parse_digits 16 (drop 2 s)
      else parse_digits 10 s)"

definition parseInt :: "string \<Rightarrow> int option" where
  "parseInt s =
     (let t = dropWhile isSpace s in
      case t of
        [] \<Rightarrow> None
      | c # cs \<Rightarrow>
          if c = CHR ''-'' then map_option (\<lambda>n. - int n) (parse_unsigned cs)
          else if c = CHR ''+'' then map_option int (parse_unsigned cs)
          else map_option int (parse_unsigned t))"

text \<open>\<open>a || b\<close> on numbers: \<open>NaN\<close> and \<open>0\<close> are falsy.\<close>

definition number_or :: "int option \<Rightarrow> int \<Rightarrow> int" where
  "number_or a b = (case a of None \<Rightarrow> b | Some n \<Rightarrow> if n = 0 then b else n)"

text \<open>\<open>a || b\<close> on an optional string: \<open>undefined\<close> and \<open>''\<close> are falsy.\<close>

definition string_or :: "string option \<Rightarrow> string \<Rightarrow> string" where
  "string_or a b = (case a of None \<Rightarrow> b | Some t \<Rightarrow> if t = [] then b else t)"

subsection \<open>Reading the transcript of the extraction tool\<close>

text \<open>
  The two regular expressions of \<open>extractArchive\<close> have one shape: one of several
  markers, then white space (\<open>\s*\<close> for zip, \<open>\s+\<close> for rar), then the group \<open>(.+)\<close>.
  \<open>capture_from lo rest j\<close> tries to end the white space after \<open>j\<close> characters of
  \<open>rest\<close>, then after \<open>j - 1\<close>, and so on down to \<open>lo\<close>, as the greedy quantifier backs
  off; the group takes every character up to the next line terminator and must not be
  empty.
\<close>

fun capture_from :: "nat \<Rightarrow> string \<Rightarrow> nat \<Rightarrow> string option" where
  "capture_from lo rest j =
     (let g = takeWhile (\<lambda>c. \<not> isLineTerminator c) (drop j rest) in
      if j < lo then None
      else if g \<noteq> [] then Some g
      else (case j of 0 \<Rightarrow> None | Suc i \<Rightarrow> capture_from lo rest i))"

declare capture_from.simps [simp del]

definition capture_after :: "nat \<Rightarrow> string \<Rightarrow> string option" where
  "capture_after lo rest = capture_from lo rest (length (takeWhile isSpace rest))"

text \<open>The alternatives of the marker group at one position, in their order.\<close>

fun match_here :: "string list \<Rightarrow> nat \<Rightarrow> string \<Rightarrow> string option" where
  "match_here [] lo s = None"
| "match_here (m # ms) lo s =
     (if startsWith s m then
        (case capture_after lo (drop (length m) s) of
           Some g \<Rightarrow> Some g
         | None \<Rightarrow> match_here ms lo s)
      else match_here ms lo s)"

text \<open>\<open>line.match(re)\<close>: the group of the leftmost match, \<open>None\<close> for \<open>null\<close>.\<close>

fun regex_match :: "string list \<Rightarrow> nat \<Rightarrow> string \<Rightarrow> string option" where
  "regex_match markers lo [] = match_here markers lo []"
| "regex_match markers lo (c # cs) =
     (case match_here markers lo (c # cs) of
        Some g \<Rightarrow> Some g
      | None \<Rightarrow> regex_match markers lo cs)"

text \<open>The callbacks of \<open>map\<close> on lines 83 to 86 and 92 to 95.\<close>

definition zip_item :: "string \<Rightarrow> string" where
  "zip_item line =
     (case regex_match [''inflating:'', ''creating:''] 0 line of
        Some g \<Rightarrow> trim g | None \<Rightarrow> [])"

definition rar_item :: "string \<Rightarrow> string" where
  "rar_item line =
     (case regex_match [''Extracting'', ''Creating''] 1 line of
        Some g \<Rightarrow> trim g | None \<Rightarrow> [])"

text \<open>Lines 76 to 100: the member names recovered from the transcript.\<close>

definition parse_items :: "FileType \<Rightarrow> string \<Rightarrow> string list" where
  "parse_items fileType output =
     (if fileType = Zip then
        filter (\<lambda>item. item \<noteq> [])
          (map zip_item
            (filter (\<lambda>line. includes_str line ''inflating:'' \<or> includes_str line ''creating:'')
              (split_newline output)))
      else if fileType = Rar then
        filter (\<lambda>item. item \<noteq> [])
          (map rar_item
            (filter (\<lambda>line. includes_str line ''Extracting'' \<or> includes_str line ''Creating'')
              (split_newline output)))
      else filter (\<lambda>f. trim f \<noteq> []) (split_newline output))"

subsection \<open>\<open>extractArchive\<close>, lines 37 to 113\<close>

record extraction_result =
  success :: bool
  items :: "string list"
  error_of :: "string option"

text \<open>The command of each \<open>case\<close> of the \<open>switch\<close>; the \<open>default\<close> case has none.\<close>

definition extract_command :: "FileType \<Rightarrow> string \<Rightarrow> string \<Rightarrow> string option" where
  "extract_command fileType filePath targetDir =
     (case fileType of
        Tar \<Rightarrow> Some (''tar -xvf '' @ quoted filePath @ '' -C '' @ quoted targetDir @ '' 2>&1'')
      | TarGz \<Rightarrow> Some (''tar -xzvf '' @ quoted filePath @ '' -C '' @ quoted targetDir @ '' 2>&1'')
      | Zip \<Rightarrow> Some (''unzip -o '' @ quoted filePath @ '' -d '' @ quoted targetDir @ '' 2>&1'')
      | Rar \<Rightarrow>
          Some (''unrar x -o+ '' @ quoted filePath @ '' '' @ quoted (targetDir @ ''/'') @ '' 2>&1'')
      | Unknown \<Rightarrow> None)"

definition extract_log :: "FileType \<Rightarrow> string" where
  "extract_log fileType =
     (case fileType of
        Tar \<Rightarrow> ''Extracting TAR file...''
      | TarGz \<Rightarrow> ''Extracting TAR.GZ file...''
      | Zip \<Rightarrow> ''Extracting ZIP file...''
      | Rar \<Rightarrow> ''Extracting RAR file...''
      | Unknown \<Rightarrow> [])"

definition extractArchive ::
  "world \<Rightarrow> string \<Rightarrow> string \<Rightarrow> FileType \<Rightarrow> ('a, extraction_result) io" where
  "extractArchive w filePath targetDir fileType =
     try_catch
       (case extract_command fileType filePath targetDir of
          None \<Rightarrow>
            ret \<lparr>success = False, items = [], error_of = Some ''Unsupported file type''\<rparr>
        | Some command \<Rightarrow>
            bind (console_log (extract_log fileType)) (\<lambda>_.
            bind (execAsync w command) (\<lambda>(stdout, stderr).
            let output = stdout @ stderr;
                extractedItems = parse_items fileType output in
            bind (console_log ''Extracted items from archive'') (\<lambda>_.
            ret \<lparr>success = True, items = extractedItems, error_of = None\<rparr>))))
       (\<lambda>e.
          bind (console_log ''Extraction error:'') (\<lambda>_.
          ret \<lparr>success = False, items = [], error_of = Some e\<rparr>))"

subsection \<open>The status singleton and the response\<close>

datatype upload_phase = UploadIdle | Extracting | UploadSuccess | UploadError

datatype entry_type = File | Directory

record file_entry =
  e_path :: string
  e_size :: nat
  e_type :: entry_type

text \<open>\<open>extractionStatus\<close>, lines 15 to 24.\<close>

record upload_status =
  status :: upload_phase
  message :: string
  progress :: nat
  files :: "file_entry list"
  totalFiles :: int
  error :: string
  fileType :: string
  extractedFilePath :: string

definition extractionStatus_initial :: upload_status where
  "extractionStatus_initial =
     \<lparr>status = UploadIdle, message = [], progress = 0, files = [], totalFiles = 0, error = [],
      fileType = [], extractedFilePath = []\<rparr>"

record upload_payload =
  r_status :: string
  r_message :: string
  r_files :: "file_entry list"
  r_totalFiles :: int
  r_fileType :: string
  r_extractedPath :: string

text \<open>The string behind each value of the type \<open>FileType\<close>.\<close>

definition fileType_text :: "FileType \<Rightarrow> string" where
  "fileType_text t =
     (case t of Tar \<Rightarrow> ''tar'' | TarGz \<Rightarrow> ''tar.gz'' | Zip \<Rightarrow> ''zip'' | Rar \<Rightarrow> ''rar''
      | Unknown \<Rightarrow> ''unknown'')"

subsection \<open>\<open>POST\<close>, lines 115 to 314\<close>

text \<open>
  The log lines that print elapsed time read the clock as well; only the reading that
  names the temporary directory is modelled.
\<close>

definition tempExt_of :: "FileType \<Rightarrow> string" where
  "tempExt_of t =
     (if t = TarGz then ''.tar.gz'' else if t = Zip then ''.zip'' else if t = Rar then ''.rar''
      else ''.tar'')"

text \<open>Lines 155 to 185: the upload is written into a fresh temporary directory.\<close>

definition save_upload ::
  "world \<Rightarrow> request \<Rightarrow> upload_file \<Rightarrow> FileType \<Rightarrow> (upload_status, string \<times> string) io" where
  "save_upload w req file t =
     bind (block
       [console_log ''File received:'',
        assign (\<lambda>u. u\<lparr>fileType := fileType_text t\<rparr>),
        assign (\<lambda>u. u\<lparr>message := ''Saving the file ('' @ toFixedMB w (file_size file) @ '' MB)...''\<rparr>),
        assign (\<lambda>u. u\<lparr>progress := 10\<rparr>)]) (\<lambda>_.
     bind (now w) (\<lambda>millis.
     let tempDir = join (tmpdir w) (''upload-'' @ show_nat millis) in
     bind (mkdir w tempDir) (\<lambda>_.
     let tempFilePath = join tempDir (''upload'' @ tempExt_of t) in
     bind (block
       [assign (\<lambda>u. u\<lparr>message := ''Writing the file to disk...''\<rparr>),
        assign (\<lambda>u. u\<lparr>progress := 15\<rparr>)]) (\<lambda>_.
     bind (arrayBuffer req) (\<lambda>buffer.
     bind (block
       [writeFile w tempFilePath buffer,
        console_log ''File saved to:'',
        assign (\<lambda>u. u\<lparr>message :=
          ''Extracting the file from '' @ toUpperCase (fileType_text t) @ ''...''\<rparr>),
        assign (\<lambda>u. u\<lparr>progress := 25\<rparr>)]) (\<lambda>_.
     ret (tempDir, tempFilePath)))))))"

text \<open>Lines 187 to 201: the extraction directory is emptied and created again.\<close>

definition prepare_extraction_dir :: "world \<Rightarrow> (upload_status, string) io" where
  "prepare_extraction_dir w =
     (let projectRoot = cwd w; extractedDir = join projectRoot ''extracted-system'' in
      bind (existsSync w extractedDir) (\<lambda>found.
      bind (block
        [if found then block [console_log ''Cleaning up previous extraction...'', rm w extractedDir]
         else ret (),
         mkdir w extractedDir,
         console_log ''Extraction directory created:'',
         assign (\<lambda>u. u\<lparr>message := ''Unpacking the system files...''\<rparr>),
         assign (\<lambda>u. u\<lparr>progress := 35\<rparr>)]) (\<lambda>_.
      ret extractedDir)))"

text \<open>\<open>out.split('\n').filter(f => f.trim())\<close>, lines 232 and 235.\<close>

definition nonblank_lines :: "string \<Rightarrow> string list" where
  "nonblank_lines out = filter (\<lambda>f. trim f \<noteq> []) (split_newline out)"

text \<open>\<open>p.replace(extractedDir, '').replace(/^\//, '')\<close>, lines 248 and 260.\<close>

definition relative_to :: "string \<Rightarrow> string \<Rightarrow> string" where
  "relative_to extractedDir p = strip_leading_slash (replace_first extractedDir [] p)"

text \<open>The bodies of the two loops that fill \<open>fileList\<close>, lines 247 to 277.\<close>

definition dir_entry :: "string \<Rightarrow> string \<Rightarrow> file_entry list" where
  "dir_entry extractedDir dir =
     (let relativePath = relative_to extractedDir dir in
      if relativePath \<noteq> [] then [\<lparr>e_path = relativePath, e_size = 0, e_type = Directory\<rparr>]
      else [])"

definition file_entry_of :: "world \<Rightarrow> string \<Rightarrow> string \<Rightarrow> ('a, file_entry list) io" where
  "file_entry_of w extractedDir file =
     (let relativePath = relative_to extractedDir file in
      if relativePath \<noteq> [] then
        try_catch
          (bind (stat w file) (\<lambda>fileSize.
           ret [\<lparr>e_path = relativePath, e_size = fileSize, e_type = File\<rparr>]))
          (\<lambda>e. ret [\<lparr>e_path = relativePath, e_size = 0, e_type = File\<rparr>])
      else ret [])"

text \<open>A loop that pushes onto a local array: the pushes of each round, in order.\<close>

fun collect :: "'x list \<Rightarrow> ('x \<Rightarrow> ('a, 'y list) io) \<Rightarrow> ('a, 'y list) io" where
  "collect [] f = ret []"
| "collect (x # xs) f = bind (f x) (\<lambda>ys. bind (collect xs f) (\<lambda>zs. ret (ys @ zs)))"

definition find_files_command :: "string \<Rightarrow> string" where
  "find_files_command extractedDir =
     ''find '' @ quoted extractedDir @ '' -type f 2>/dev/null | head -n 1000''"

definition find_dirs_command :: "string \<Rightarrow> string" where
  "find_dirs_command extractedDir =
     ''find '' @ quoted extractedDir @ '' -type d 2>/dev/null | head -n 500''"

definition count_files_command :: "string \<Rightarrow> string" where
  "count_files_command extractedDir =
     ''find '' @ quoted extractedDir @ '' -type f 2>/dev/null | wc -l''"

text \<open>Lines 230 to 277: the listing of the extracted tree and the total count.\<close>

definition list_extracted :: "world \<Rightarrow> string \<Rightarrow> ('a, file_entry list \<times> int) io" where
  "list_extracted w extractedDir =
     bind (console_log ''Reading file list...'') (\<lambda>_.
     bind (execAsync w (find_files_command extractedDir)) (\<lambda>(allFilesOutput, _).
     let files = nonblank_lines allFilesOutput in
     bind (execAsync w (find_dirs_command extractedDir)) (\<lambda>(allDirsOutput, _).
     let dirs = nonblank_lines allDirsOutput in
     bind (console_log ''Found files and directories'') (\<lambda>_.
     bind (execAsync w (count_files_command extractedDir)) (\<lambda>(countOutput, _).
     let totalFiles = number_or (parseInt (trim countOutput)) (int (length files)) in
     bind (collect (take 500 files) (file_entry_of w extractedDir)) (\<lambda>fileEntries.
     ret (concat (map (dir_entry extractedDir) (take 100 dirs)) @ fileEntries, totalFiles)))))))"

definition extractionStatus_reset :: upload_status where
  "extractionStatus_reset =
     \<lparr>status = Extracting, message = ''Reading the file...'', progress = 5, files = [],
      totalFiles = 0, error = [], fileType = [], extractedFilePath = []\<rparr>"

definition no_file_found :: "upload_payload response" where
  "no_file_found = json_response 400 (ErrorOnly ''No file was found'')"

definition unsupported_format :: "upload_payload response" where
  "unsupported_format =
     json_response 400
       (ErrorOnly ''The file format is not supported. Supported formats: .tar, .tar.gz, .zip, .rar'')"

definition empty_archive_message :: string where
  "empty_archive_message = ''No files were found inside the archive''"

text \<open>Lines 205 to 221: the two ways an extraction fails, each with an early \<open>return\<close>.\<close>

definition fail_extraction :: "string \<Rightarrow> (upload_status, upload_payload response) io" where
  "fail_extraction e =
     bind (block
       [assign (\<lambda>u. u\<lparr>status := UploadError\<rparr>),
        assign (\<lambda>u. u\<lparr>error := e\<rparr>)]) (\<lambda>_.
     bind read_cell (\<lambda>u.
     ret (json_response 500 (StatusError (error u)))))"

text \<open>Lines 279 to 302: the status is completed, the temporary directory removed.\<close>

definition finish_upload ::
  "world \<Rightarrow> FileType \<Rightarrow> string \<Rightarrow> string \<Rightarrow> file_entry list \<Rightarrow> int \<Rightarrow>
     (upload_status, upload_payload response) io" where
  "finish_upload w t tempDir extractedDir fileList fileCount =
     bind (block
       [assign (\<lambda>u. u\<lparr>files := fileList\<rparr>),
        assign (\<lambda>u. u\<lparr>totalFiles := fileCount\<rparr>),
        assign (\<lambda>u. u\<lparr>status := UploadSuccess\<rparr>),
        assign (\<lambda>u. u\<lparr>message := ''The files were extracted!''\<rparr>),
        assign (\<lambda>u. u\<lparr>progress := 100\<rparr>),
        try_catch (block [rm w tempDir, console_log ''Temp files cleaned up'']) (\<lambda>e. ret ()),
        console_log ''Upload and extraction completed'']) (\<lambda>_.
     ret (json_response 200 (Payload
       \<lparr>r_status = ''success'', r_message = ''The system files were extracted'',
        r_files = fileList, r_totalFiles = fileCount, r_fileType = fileType_text t,
        r_extractedPath = extractedDir\<rparr>)))"

text \<open>Lines 203 to 302: the extraction and everything after it.\<close>

definition extract_and_list ::
  "world \<Rightarrow> FileType \<Rightarrow> string \<Rightarrow> string \<Rightarrow> string \<Rightarrow>
     (upload_status, upload_payload response) io" where
  "extract_and_list w t tempDir tempFilePath extractedDir =
     bind (extractArchive w tempFilePath extractedDir t) (\<lambda>extractionResult.
     if \<not> success extractionResult then
       fail_extraction (string_or (error_of extractionResult) ''The file could not be extracted'')
     else if items extractionResult = [] then fail_extraction empty_archive_message
     else
       bind (block
         [assign (\<lambda>u. u\<lparr>progress := 55\<rparr>),
          assign (\<lambda>u. u\<lparr>message :=
            ''Found '' @ show_nat (length (items extractionResult)) @ '' items''\<rparr>),
          assign (\<lambda>u. u\<lparr>message := ''Reading the list of files...''\<rparr>),
          assign (\<lambda>u. u\<lparr>progress := 65\<rparr>)]) (\<lambda>_.
       bind (list_extracted w extractedDir) (\<lambda>(fileList, fileCount).
       finish_upload w t tempDir extractedDir fileList fileCount)))"

text \<open>The body of the \<open>try\<close>, lines 119 to 302.\<close>

definition upload_try :: "world \<Rightarrow> request \<Rightarrow> (upload_status, upload_payload response) io" where
  "upload_try w req =
     bind (block
       [console_log ''Starting upload process...'',
        console_log ''Incoming file size:'',
        assign (\<lambda>_. extractionStatus_reset)]) (\<lambda>_.
     bind (formData req) (\<lambda>entry.
     case entry of
       NoEntry \<Rightarrow>
         bind (console_log ''No file found in form data'') (\<lambda>_. ret no_file_found)
     | TextEntry text \<Rightarrow>
         if text = [] then
           bind (console_log ''No file found in form data'') (\<lambda>_. ret no_file_found)
         else throw ''Cannot read properties of undefined (reading 'toLowerCase')''
     | FileEntry file \<Rightarrow>
         let t = detectFileType (file_name file) in
         if t = Unknown then ret unsupported_format
         else
           bind (save_upload w req file t) (\<lambda>(tempDir, tempFilePath).
           bind (prepare_extraction_dir w) (\<lambda>extractedDir.
           extract_and_list w t tempDir tempFilePath extractedDir))))"

text \<open>The \<open>catch\<close>, lines 304 to 313.\<close>

definition upload_catch ::
  "string \<Rightarrow> upload_status sys \<Rightarrow> upload_payload response \<times> upload_status sys" where
  "upload_catch e s =
     (let s1 = snd (console_log ''Upload error:'' s);
          s2 = snd (assign (\<lambda>u. u\<lparr>status := UploadError\<rparr>) s1);
          s3 = snd (assign (\<lambda>u. u\<lparr>error := e\<rparr>) s2)
      in (json_response 500 (StatusError (error (cell s3))), s3))"

definition upload_POST ::
  "world \<Rightarrow> request \<Rightarrow> upload_status sys \<Rightarrow> upload_payload response \<times> upload_status sys" where
  "upload_POST w req s =
     (case upload_try w req s of
        (Inr resp, s') \<Rightarrow> (resp, s')
      | (Inl e, s') \<Rightarrow> upload_catch e s')"

text \<open>\<open>GET\<close>, lines 316 to 318.\<close>

definition upload_GET :: "upload_status sys \<Rightarrow> upload_status" where
  "upload_GET s = cell s"

section \<open>Observing a request\<close>

text \<open>The directory that the first \<open>mkdir\<close> of a request creates: its staging directory.\<close>

fun first_mkdir :: "event list \<Rightarrow> string option" where
  "first_mkdir [] = None"
| "first_mkdir (EvMkdir p r # es) = Some p"
| "first_mkdir (e # es) = first_mkdir es"

text \<open>The removal of a path was attempted.\<close>

fun removal_of :: "string \<Rightarrow> event \<Rightarrow> bool" where
  "removal_of p (EvRm q r) = (q = p)"
| "removal_of p e = False"

definition removal_attempted :: "string \<Rightarrow> event list \<Rightarrow> bool" where
  "removal_attempted p evs = list_ex (removal_of p) evs"

text \<open>What the loop over the listed files does, round by round: the calls of \<open>stat\<close>
  with their answers, and the entries pushed.\<close>

fun stat_events :: "world \<Rightarrow> string \<Rightarrow> string list \<Rightarrow> event list \<Rightarrow> event list" where
  "stat_events w d [] h = []"
| "stat_events w d (f # fs) h =
     (if relative_to d f \<noteq> [] then
        EvStat f (w_stat w h f) # stat_events w d fs (h @ [EvStat f (w_stat w h f)])
      else stat_events w d fs h)"

fun stat_entries :: "world \<Rightarrow> string \<Rightarrow> string list \<Rightarrow> event list \<Rightarrow> file_entry list" where
  "stat_entries w d [] h = []"
| "stat_entries w d (f # fs) h =
     (if relative_to d f \<noteq> [] then
        \<lparr>e_path = relative_to d f,
         e_size = (case w_stat w h f of Inl e \<Rightarrow> 0 | Inr n \<Rightarrow> n), e_type = File\<rparr>
        # stat_entries w d fs (h @ [EvStat f (w_stat w h f)])
      else stat_entries w d fs h)"

fun is_stat :: "event \<Rightarrow> bool" where
  "is_stat (EvStat p r) = True"
| "is_stat e = False"

fun is_exec :: "event \<Rightarrow> bool" where
  "is_exec (EvExec c r) = True"
| "is_exec e = False"

text \<open>The events of the listing: log lines, \<open>find\<close> commands and calls of \<open>stat\<close>.\<close>

fun listing_event :: "event \<Rightarrow> bool" where
  "listing_event (EvLog m) = True"
| "listing_event (EvExec c r) = startsWith c ''find ''"
| "listing_event (EvStat p r) = True"
| "listing_event e = False"

text \<open>What the clean-up logs after the removal of the staging directory.\<close>

definition cleanup_log :: "string option \<Rightarrow> event list" where
  "cleanup_log r = (case r of None \<Rightarrow> [EvLog ''Temp files cleaned up''] | Some e \<Rightarrow> [])"


text \<open>Two values of the status that agree on every field but the phase and the error.\<close>

definition same_but_outcome :: "upload_status \<Rightarrow> upload_status \<Rightarrow> bool" where
  "same_but_outcome u v = (u\<lparr>status := status v, error := error v\<rparr> = v)"



section \<open>Reasoning about the events of a request\<close>

text \<open>
  \<open>adds P m\<close>: whatever the state, running \<open>m\<close> only appends events to the trace, and
  every event it appends satisfies \<open>P\<close>.
\<close>

definition adds :: "(event \<Rightarrow> bool) \<Rightarrow> ('a, 'r) io \<Rightarrow> bool" where
  "adds P m = (\<forall>s. \<exists>evs. trace (snd (m s)) = trace s @ evs \<and> list_all P evs)"

text \<open>\<open>returns m\<close>: whatever the state, \<open>m\<close> returns a value and does not throw.\<close>

definition returns :: "('a, 'r) io \<Rightarrow> bool" where
  "returns m = (\<forall>s. \<exists>r s'. m s = (Inr r, s'))"



section \<open>Concrete worlds and states\<close>

text \<open>A world in which every call succeeds and every path exists.\<close>

definition quiet_world :: world where
  "quiet_world =
     \<lparr>cwd = ''/app'', tmpdir = ''/tmp'', dateNow = (\<lambda>h. 1700000000),
      isoNow = (\<lambda>h. ''2024-01-01T00:00:00.000Z''), toFixedMB = (\<lambda>n. ''0.00''),
      w_existsSync = (\<lambda>h p. True), w_mkdir = (\<lambda>h p. None), w_rm = (\<lambda>h p. None),
      w_writeFile = (\<lambda>h p c. None), w_exec = (\<lambda>h c. Inr ([], [])),
      w_stat = (\<lambda>h p. Inr 0)\<rparr>"

text \<open>\<open>rsync\<close> works; every other command fails.\<close>

definition tools_fail_world :: world where
  "tools_fail_world =
     quiet_world\<lparr>w_exec := (\<lambda>h c. if startsWith c ''rsync'' then Inr ([], [])
                                 else Inl ''Command failed'')\<rparr>"

text \<open>Only \<open>bun install\<close> fails.\<close>

definition install_fails_world :: world where
  "install_fails_world =
     quiet_world\<lparr>w_exec := (\<lambda>h c. if c = ''bun install'' then Inl ''Command failed: bun install''
                                 else Inr ([], []))\<rparr>"

text \<open>
  A world for the deploy route in which \<open>rsync\<close> works and everything after the copy
  fails: the other commands are rejected, \<open>/app/prisma\<close> is missing and no directory
  can be created.
\<close>

definition after_copy_fails_world :: world where
  "after_copy_fails_world =
     quiet_world\<lparr>w_existsSync := (\<lambda>h p. p \<noteq> ''/app/prisma''),
                  w_mkdir := (\<lambda>h p. Some ''EACCES''),
                  w_exec := (\<lambda>h c. if startsWith c ''rsync'' then Inr ([], [])
                                 else Inl ''Command failed'')\<rparr>"

text \<open>No path exists: nothing has been extracted.\<close>

definition nothing_extracted_world :: world where
  "nothing_extracted_world = quiet_world\<lparr>w_existsSync := (\<lambda>h p. False)\<rparr>"

text \<open>The server right after its start, and after an earlier deployment.\<close>

definition fresh_deploy :: "deploy_status sys" where
  "fresh_deploy = \<lparr>cell = deployStatus_initial, seen = [], trace = []\<rparr>"

definition deployed_before :: "deploy_status sys" where
  "deployed_before =
     \<lparr>cell = \<lparr>d_status = DeploySuccess, d_message = ''The system was deployed! Restarting...'',
              d_progress = 100, d_error = [], d_step = ''prisma''\<rparr>,
      seen = [], trace = []\<rparr>"

text \<open>The upload route: the server right after its start, and three requests.\<close>

definition fresh_upload :: "upload_status sys" where
  "fresh_upload = \<lparr>cell = extractionStatus_initial, seen = [], trace = []\<rparr>"

definition tar_request :: request where
  "tar_request =
     \<lparr>req_formData = Inr (FileEntry \<lparr>file_name = ''site.tar'', file_size = 2048\<rparr>),
      req_arrayBuffer = Inr ''bytes''\<rparr>"

definition txt_request :: request where
  "txt_request =
     \<lparr>req_formData = Inr (FileEntry \<lparr>file_name = ''notes.txt'', file_size = 12\<rparr>),
      req_arrayBuffer = Inr ''hello, world''\<rparr>"

text \<open>
  A world in which \<open>tar\<close> unpacks two files and one directory, and \<open>find\<close> and \<open>wc\<close>
  report them.
\<close>

definition listing_world :: world where
  "listing_world =
     quiet_world\<lparr>w_exec := (\<lambda>h c.
       if startsWith c ''tar'' then
         Inr (''a.txt'' @ [newline] @ ''d/'' @ [newline] @ ''d/b.txt'' @ [newline], [])
       else if endsWith c ''wc -l'' then Inr (''2'' @ [newline], [])
       else if endsWith c ''head -n 1000'' then
         Inr (''/app/extracted-system/a.txt'' @ [newline] @
              ''/app/extracted-system/d/b.txt'' @ [newline], [])
       else
         Inr (''/app/extracted-system'' @ [newline] @ ''/app/extracted-system/d'' @ [newline],
              []))\<rparr>"

text \<open>The same world, except that nothing under \<open>/tmp\<close> can be removed.\<close>

definition busy_tmp_world :: world where
  "busy_tmp_world =
     listing_world\<lparr>w_rm := (\<lambda>h p. if startsWith p ''/tmp'' then Some ''EBUSY'' else None)\<rparr>"

text \<open>A world in which every command fails.\<close>

definition broken_tools_world :: world where
  "broken_tools_world = quiet_world\<lparr>w_exec := (\<lambda>h c. Inl ''Command failed'')\<rparr>"

section \<open>Archive kind detection: the code against the specification\<close>

lemma char_eq_code: "(a = b) \<longleftrightarrow> ((of_char a :: nat) = of_char b)"
  by auto

lemma of_char_lt: "(of_char (c::char) :: nat) < 256"
  by (metis of_char_mod_256 mod_less_divisor zero_less_numeral)

lemma code_toUpperChar:
  "(of_char (toUpperChar c) :: nat) = (if isLower c then of_char c - 32 else of_char c)"
  using of_char_lt [of c] by (auto simp: toUpperChar_def isLower_def)

lemma code_toLowerChar:
  "(of_char (toLowerChar c) :: nat) = (if isUpper c then of_char c + 32 else of_char c)"
  using of_char_lt [of c] by (simp add: toLowerChar_def isUpper_def)

lemma lower_of_upper: "toLowerChar (toUpperChar c) = toLowerChar c"
  unfolding char_eq_code code_toLowerChar
  by (auto simp: isUpper_def isLower_def code_toUpperChar)

lemma upper_of_lower: "toUpperChar (toLowerChar c) = toUpperChar c"
  unfolding char_eq_code code_toUpperChar
  by (auto simp: isUpper_def isLower_def code_toLowerChar)

lemma same_upper_iff_same_lower:
  "toUpperChar a = toUpperChar b \<longleftrightarrow> toLowerChar a = toLowerChar b"
  by (metis lower_of_upper upper_of_lower)

lemma list_all2_same_ignoring_case:
  "list_all2 same_ignoring_case xs ys \<longleftrightarrow> toLowerCase xs = toLowerCase ys"
  unfolding same_ignoring_case_def same_upper_iff_same_lower toLowerCase_def
  by (induction xs arbitrary: ys) (auto simp: list_all2_Cons1)

lemma endsWith_toLowerCase:
  assumes "toLowerCase suf = suf"
  shows "endsWith (toLowerCase name) suf \<longleftrightarrow> has_suffix_ci name suf"
  using assms
  by (auto simp: endsWith_def has_suffix_ci_def list_all2_same_ignoring_case toLowerCase_def
      drop_map)

lemma suffixes_lower_case:
  "toLowerCase ''.tar.gz'' = ''.tar.gz''" "toLowerCase ''.tgz'' = ''.tgz''"
  "toLowerCase ''.tar'' = ''.tar''" "toLowerCase ''.zip'' = ''.zip''"
  "toLowerCase ''.rar'' = ''.rar''"
  by (simp_all add: toLowerCase_def toLowerChar_def isUpper_def)

text \<open>
  Claim C2. For every file name, \<open>detectFileType\<close> is the case-insensitive suffix match of
  the specification, with the suffixes tried in the order \<open>.tar.gz\<close> or \<open>.tgz\<close>, \<open>.tar\<close>,
  \<open>.zip\<close>, \<open>.rar\<close>, and \<open>Unknown\<close> otherwise; a name that ends in \<open>.tar.gz\<close> in any
  mix of cases is never classified as \<open>Tar\<close>.
\<close>

theorem detectFileType_is_Classify:
  "detectFileType filename = Classify_spec filename \<and>
   (has_suffix_ci filename ''.tar.gz'' \<longrightarrow> detectFileType filename \<noteq> Tar)"
proof -
  note l = suffixes_lower_case
  show ?thesis
    unfolding detectFileType_def Classify_spec_def Let_def
    by (simp only: endsWith_toLowerCase [OF l(1)] endsWith_toLowerCase [OF l(2)]
        endsWith_toLowerCase [OF l(3)] endsWith_toLowerCase [OF l(4)]
        endsWith_toLowerCase [OF l(5)]) simp
qed

text \<open>The claim at the name \<open>Backup.Tar.GZ\<close>, whose compound suffix is in mixed case.\<close>

theorem detectFileType_is_Classify_witness:
  "has_suffix_ci ''Backup.Tar.GZ'' ''.tar.gz'' \<and>
   detectFileType ''Backup.Tar.GZ'' = TarGz \<and>
   detectFileType ''Backup.Tar.GZ'' \<noteq> Tar"
proof -
  have h: "has_suffix_ci ''Backup.Tar.GZ'' ''.tar.gz''" by code_simp
  have c: "Classify_spec ''Backup.Tar.GZ'' = TarGz" by code_simp
  from detectFileType_is_Classify [of "''Backup.Tar.GZ''"] h c show ?thesis by simp
qed

section \<open>Events of the building blocks\<close>

lemma addsI: "(\<And>s. \<exists>evs. trace (snd (m s)) = trace s @ evs \<and> list_all P evs) \<Longrightarrow> adds P m"
  by (simp add: adds_def)

lemma addsD: "adds P m \<Longrightarrow> \<exists>evs. trace (snd (m s)) = trace s @ evs \<and> list_all P evs"
  by (simp add: adds_def)

lemma adds_ret: "adds P (ret r)"
  by (simp add: adds_def ret_def)

lemma adds_bind:
  assumes "adds P m" and "\<And>r. adds P (k r)"
  shows "adds P (bind m k)"
proof (rule addsI)
  fix s
  obtain r s1 where ms: "m s = (r, s1)" by (cases "m s")
  from addsD [OF assms(1), of s] ms obtain evs
    where e1: "trace s1 = trace s @ evs" "list_all P evs" by auto
  show "\<exists>evs. trace (snd (bind m k s)) = trace s @ evs \<and> list_all P evs"
  proof (cases r)
    case (Inl e)
    with ms e1 show ?thesis by (simp add: bind_def)
  next
    case (Inr a)
    from addsD [OF assms(2), of a s1] obtain evs'
      where e2: "trace (snd (k a s1)) = trace s1 @ evs'" "list_all P evs'" by auto
    with ms e1 Inr show ?thesis by (simp add: bind_def)
  qed
qed

lemma adds_try_catch:
  assumes "adds P m" and "\<And>e. adds P (h e)"
  shows "adds P (try_catch m h)"
proof (rule addsI)
  fix s
  obtain r s1 where ms: "m s = (r, s1)" by (cases "m s")
  from addsD [OF assms(1), of s] ms obtain evs
    where e1: "trace s1 = trace s @ evs" "list_all P evs" by auto
  show "\<exists>evs. trace (snd (try_catch m h s)) = trace s @ evs \<and> list_all P evs"
  proof (cases r)
    case (Inr a)
    with ms e1 show ?thesis by (simp add: try_catch_def)
  next
    case (Inl e)
    from addsD [OF assms(2), of e s1] obtain evs'
      where e2: "trace (snd (h e s1)) = trace s1 @ evs'" "list_all P evs'" by auto
    with ms e1 Inl show ?thesis by (simp add: try_catch_def)
  qed
qed

lemma adds_discard: "adds P m \<Longrightarrow> adds P (discard m)"
  unfolding discard_def by (intro adds_bind adds_ret)

lemma adds_block: "(\<And>m. m \<in> set ms \<Longrightarrow> adds P m) \<Longrightarrow> adds P (block ms)"
  by (induction ms) (auto intro!: adds_bind adds_ret)

lemma adds_block_Cons: "adds P m \<Longrightarrow> adds P (block ms) \<Longrightarrow> adds P (block (m # ms))"
  by (auto intro!: adds_bind)

lemma adds_block_Nil: "adds P (block [])"
  by (simp add: adds_ret)

lemma adds_forEach: "(\<And>x. adds P (f x)) \<Longrightarrow> adds P (forEach xs f)"
  by (induction xs) (auto intro!: adds_bind adds_ret)

lemma adds_if: "adds P m \<Longrightarrow> adds P n \<Longrightarrow> adds P (if b then m else n)"
  by simp

lemma adds_assign: "adds P (assign f)"
  by (simp add: adds_def assign_def)

lemma adds_throw: "adds P (throw e)"
  by (simp add: adds_def throw_def)

lemma adds_read_cell: "adds P read_cell"
  by (simp add: adds_def read_cell_def)

lemma adds_now: "adds P (now w)"
  by (simp add: adds_def now_def)

lemma adds_collect: "(\<And>x. adds P (f x)) \<Longrightarrow> adds P (collect xs f)"
  by (induction xs) (auto intro!: adds_bind adds_ret)

lemma adds_case_prod: "(\<And>a b. adds P (f a b)) \<Longrightarrow> adds P (case p of (a, b) \<Rightarrow> f a b)"
  by (cases p) simp

lemma adds_console_log: "P (EvLog m) \<Longrightarrow> adds P (console_log m)"
  by (simp add: adds_def console_log_def emit_def)

lemma adds_existsSync: "(\<And>b. P (EvExists p b)) \<Longrightarrow> adds P (existsSync w p)"
  by (simp add: adds_def existsSync_def emit_def Let_def)

lemma adds_mkdir: "(\<And>r. P (EvMkdir p r)) \<Longrightarrow> adds P (mkdir w p)"
  by (simp add: adds_def mkdir_def emit_def Let_def)

lemma adds_rm: "(\<And>r. P (EvRm p r)) \<Longrightarrow> adds P (rm w p)"
  by (simp add: adds_def rm_def emit_def Let_def)

lemma adds_writeFile: "(\<And>r. P (EvWrite p c r)) \<Longrightarrow> adds P (writeFile w p c)"
  by (simp add: adds_def writeFile_def emit_def Let_def)

lemma adds_execAsync: "(\<And>r. P (EvExec c r)) \<Longrightarrow> adds P (execAsync w c)"
  by (simp add: adds_def execAsync_def emit_def Let_def)

lemma adds_stat: "(\<And>r. P (EvStat p r)) \<Longrightarrow> adds P (stat w p)"
  by (simp add: adds_def stat_def emit_def Let_def)

lemma adds_formData: "(\<And>r. P (EvFormData r)) \<Longrightarrow> adds P (formData req)"
  by (simp add: adds_def formData_def emit_def)

lemma adds_arrayBuffer: "(\<And>r. P (EvArrayBuffer r)) \<Longrightarrow> adds P (arrayBuffer req)"
  by (simp add: adds_def arrayBuffer_def emit_def)

lemmas adds_intros =
  adds_ret adds_bind adds_try_catch adds_discard adds_block_Cons adds_block_Nil adds_forEach
  adds_if adds_assign adds_console_log adds_existsSync adds_mkdir adds_rm adds_writeFile
  adds_execAsync adds_stat adds_formData adds_arrayBuffer adds_throw adds_read_cell adds_now
  adds_collect adds_case_prod

lemmas io_defs = ret_def throw_def bind_def discard_def try_catch_def emit_def assign_def
  console_log_def existsSync_def settle_def mkdir_def rm_def writeFile_def execAsync_def
  stat_def formData_def arrayBuffer_def read_cell_def now_def Let_def

lemma block_snoc: "block (ms @ [m]) = bind (block ms) (\<lambda>_. m)"
proof (induction ms)
  case Nil
  show ?case by (rule ext) (simp add: bind_def ret_def split: prod.splits sum.splits)
next
  case (Cons a ms)
  show ?case by (rule ext) (simp add: Cons bind_def split: prod.splits sum.splits)
qed

lemma bind_assign_Inr:
  assumes "bind m (\<lambda>_. assign f) s = (Inr u, s')"
  shows "\<exists>v s1. m s = (Inr v, s1) \<and> cell s' = f (cell s1)"
proof -
  obtain r s1 where ms: "m s = (r, s1)" by (cases "m s")
  show ?thesis
  proof (cases r)
    case (Inl e)
    with ms assms show ?thesis by (simp add: bind_def)
  next
    case (Inr v)
    with ms assms show ?thesis by (auto simp: bind_def assign_def)
  qed
qed

subsection \<open>Actions that never throw\<close>

lemma returnsI: "(\<And>s. \<exists>r s'. m s = (Inr r, s')) \<Longrightarrow> returns m"
  by (simp add: returns_def)

lemma returnsD: "returns m \<Longrightarrow> \<exists>r s'. m s = (Inr r, s')"
  by (simp add: returns_def)

lemma returns_ret: "returns (ret r)"
  by (simp add: returns_def ret_def)

lemma returns_bind:
  assumes "returns m" and "\<And>r. returns (k r)"
  shows "returns (bind m k)"
proof (rule returnsI)
  fix s
  from returnsD [OF assms(1), of s] obtain r s1 where "m s = (Inr r, s1)" by blast
  with returnsD [OF assms(2), of r s1] show "\<exists>r s'. bind m k s = (Inr r, s')"
    by (simp add: bind_def)
qed

lemma returns_try_catch:
  assumes "\<And>e. returns (h e)"
  shows "returns (try_catch m h)"
proof (rule returnsI)
  fix s
  obtain r s1 where ms: "m s = (r, s1)" by (cases "m s")
  show "\<exists>r s'. try_catch m h s = (Inr r, s')"
  proof (cases r)
    case (Inl e)
    with ms returnsD [OF assms, of e s1] show ?thesis by (simp add: try_catch_def)
  next
    case (Inr a)
    with ms show ?thesis by (simp add: try_catch_def)
  qed
qed

lemma returns_block_Nil: "returns (block [])"
  by (simp add: returns_ret)

lemma returns_block_Cons: "returns m \<Longrightarrow> returns (block ms) \<Longrightarrow> returns (block (m # ms))"
  by (auto intro!: returns_bind)

lemma returns_if: "returns m \<Longrightarrow> returns n \<Longrightarrow> returns (if b then m else n)"
  by simp

lemma returns_assign: "returns (assign f)"
  by (simp add: returns_def assign_def)

lemma returns_console_log: "returns (console_log m)"
  by (simp add: returns_def console_log_def)

lemma returns_existsSync: "returns (existsSync w p)"
  by (simp add: returns_def existsSync_def Let_def)

lemmas returns_intros = returns_ret returns_bind returns_try_catch returns_block_Nil
  returns_block_Cons returns_if returns_assign returns_console_log returns_existsSync

lemma block_append: "block (ms @ ns) = bind (block ms) (\<lambda>_. block ns)"
proof (induction ms)
  case Nil
  show ?case by (rule ext) (simp add: bind_def ret_def)
next
  case (Cons a ms)
  show ?case by (rule ext) (simp add: Cons bind_def split: prod.splits sum.splits)
qed

subsection \<open>Assignments that keep a property of the status\<close>


































section \<open>The deploy route: theorems\<close>

lemmas deploy_defs = deploy_POST_def deploy_try_def deploy_catch_def deploy_steps_def
  step_backup_def step_copy_def step_install_def step_prisma_def step_database_def
  step_restart_def copy_dir_def copy_file_def restartFile_def rsync_command_def excludeList_def
  dirsToCopy_def filesToCopy_def join_def quoted_def deploy_success_def no_extraction_found_def
  json_response_def deployStatus_initial_def

lemmas deploy_eval = io_defs deploy_defs quiet_world_def fresh_deploy_def startsWith_def Let_def
  events_since_def sentinel_written_def deploy_GET_def reported_steps_def

lemma deploy_steps_no_sentinel:
  "adds (\<lambda>e. \<not> sentinel_write w e) (deploy_steps w projectRoot extractedDir)"
  unfolding deploy_steps_def step_backup_def step_copy_def step_install_def step_prisma_def
    step_database_def copy_dir_def copy_file_def Let_def
  by (intro adds_intros) simp_all

lemma deploy_steps_Inr:
  assumes "deploy_steps w projectRoot extractedDir s = (Inr u, s')"
  shows "d_status (cell s') = DeploySuccess \<and> d_progress (cell s') = 100"
proof -
  let ?front = "[assign (\<lambda>_. \<lparr>d_status = Deploying, d_message = ''Starting the deployment...'',
                     d_progress = 5, d_error = [], d_step = ''init''\<rparr>),
       step_backup w projectRoot,
       step_copy w projectRoot extractedDir,
       step_install w,
       step_prisma w projectRoot,
       step_database w projectRoot extractedDir]"
  let ?a1 = "assign (\<lambda>d. d\<lparr>d_status := DeploySuccess\<rparr>)"
  let ?a2 = "assign (\<lambda>d. d\<lparr>d_message := ''The system was deployed! Restarting...''\<rparr>)"
  let ?a3 = "assign (\<lambda>d. d\<lparr>d_progress := 100\<rparr>)"
  have "deploy_steps w projectRoot extractedDir = block (((?front @ [?a1]) @ [?a2]) @ [?a3])"
    by (simp add: deploy_steps_def)
  then have "deploy_steps w projectRoot extractedDir =
      bind (bind (bind (block ?front) (\<lambda>_. ?a1)) (\<lambda>_. ?a2)) (\<lambda>_. ?a3)"
    by (simp only: block_snoc)
  with assms have top: "bind (bind (bind (block ?front) (\<lambda>_. ?a1)) (\<lambda>_. ?a2)) (\<lambda>_. ?a3) s
      = (Inr u, s')"
    by simp
  from bind_assign_Inr [OF top] obtain v3 s3 where
    s3: "bind (bind (block ?front) (\<lambda>_. ?a1)) (\<lambda>_. ?a2) s = (Inr v3, s3)"
    and c3: "cell s' = (cell s3)\<lparr>d_progress := 100\<rparr>"
    by blast
  from bind_assign_Inr [OF s3] obtain v2 s2 where
    s2: "bind (block ?front) (\<lambda>_. ?a1) s = (Inr v2, s2)"
    and c2: "cell s3 = (cell s2)\<lparr>d_message := ''The system was deployed! Restarting...''\<rparr>"
    by blast
  from bind_assign_Inr [OF s2] obtain v1 s1 where
    s1: "block ?front s = (Inr v1, s1)"
    and c1: "cell s2 = (cell s1)\<lparr>d_status := DeploySuccess\<rparr>"
    by blast
  show ?thesis by (simp add: c1 c2 c3)
qed

lemma deploy_POST_not_found:
  assumes "\<not> w_existsSync w (trace s) (join (cwd w) ''extracted-system'')"
  shows "deploy_POST w s =
     (no_extraction_found, emit (EvExists (join (cwd w) ''extracted-system'') False) s)"
  using assms
  by (simp add: deploy_POST_def deploy_try_def Let_def bind_def existsSync_def ret_def)

lemma deploy_POST_cases:
  "fst (deploy_POST w s) = no_extraction_found \<or> fst (deploy_POST w s) = deploy_success \<or>
   (\<exists>e. fst (deploy_POST w s) = json_response 500 (StatusError e))"
  by (auto simp: deploy_POST_def deploy_try_def deploy_catch_def Let_def bind_def ret_def
      split: prod.splits sum.splits)

text \<open>
  The install step, the Prisma step and the data-copy step never throw: each one catches
  whatever its commands raise. So the second part of the pipeline always runs to its
  end and leaves the status in the success phase.
\<close>

lemma step_install_returns: "returns (step_install w)"
  unfolding step_install_def by (intro returns_intros)

lemma step_prisma_returns: "returns (step_prisma w projectRoot)"
  unfolding step_prisma_def Let_def by (intro returns_intros)

lemma step_database_returns: "returns (step_database w projectRoot extractedDir)"
  unfolding step_database_def Let_def by (intro returns_intros)

lemma deploy_after_copy_returns: "returns (deploy_after_copy w projectRoot extractedDir)"
  unfolding deploy_after_copy_def
  by (intro returns_block_Cons returns_block_Nil returns_assign step_install_returns
      step_prisma_returns step_database_returns)

lemma deploy_steps_split:
  "deploy_steps w projectRoot extractedDir =
     bind (deploy_through_copy w projectRoot extractedDir)
       (\<lambda>_. deploy_after_copy w projectRoot extractedDir)"
  unfolding deploy_steps_def deploy_through_copy_def deploy_after_copy_def
  by (simp only: block_append [symmetric] append.simps)

lemmas deploy_parts = copy_outcome_def before_restart_def deploy_through_copy_def
  deploy_after_copy_def

lemma deploy_after_copy_succeeds:
  obtains s' where "deploy_after_copy w projectRoot extractedDir s = (Inr (), s')"
    and "d_status (cell s') = DeploySuccess"
    and "\<exists>evs. trace s' = trace s @ evs"
proof -
  let ?front = "[step_install w, step_prisma w projectRoot,
       step_database w projectRoot extractedDir]"
  let ?a1 = "assign (\<lambda>d. d\<lparr>d_status := DeploySuccess\<rparr>)"
  let ?a2 = "assign (\<lambda>d. d\<lparr>d_message := ''The system was deployed! Restarting...''\<rparr>)"
  let ?a3 = "assign (\<lambda>d. d\<lparr>d_progress := 100\<rparr>)"
  from returnsD [OF deploy_after_copy_returns, of w projectRoot extractedDir s]
  obtain s' where run: "deploy_after_copy w projectRoot extractedDir s = (Inr (), s')"
    by auto
  have "deploy_after_copy w projectRoot extractedDir = block (((?front @ [?a1]) @ [?a2]) @ [?a3])"
    by (simp add: deploy_after_copy_def)
  then have "deploy_after_copy w projectRoot extractedDir =
      bind (bind (bind (block ?front) (\<lambda>_. ?a1)) (\<lambda>_. ?a2)) (\<lambda>_. ?a3)"
    by (simp only: block_snoc)
  with run have top: "bind (bind (bind (block ?front) (\<lambda>_. ?a1)) (\<lambda>_. ?a2)) (\<lambda>_. ?a3) s
      = (Inr (), s')"
    by simp
  from bind_assign_Inr [OF top] obtain v3 s3 where
    s3: "bind (bind (block ?front) (\<lambda>_. ?a1)) (\<lambda>_. ?a2) s = (Inr v3, s3)"
    and c3: "cell s' = (cell s3)\<lparr>d_progress := 100\<rparr>"
    by blast
  from bind_assign_Inr [OF s3] obtain v2 s2 where
    s2: "bind (block ?front) (\<lambda>_. ?a1) s = (Inr v2, s2)"
    and c2: "cell s3 = (cell s2)\<lparr>d_message := ''The system was deployed! Restarting...''\<rparr>"
    by blast
  from bind_assign_Inr [OF s2] obtain v1 s1 where
    s1: "block ?front s = (Inr v1, s1)"
    and c1: "cell s2 = (cell s1)\<lparr>d_status := DeploySuccess\<rparr>"
    by blast
  have st: "d_status (cell s') = DeploySuccess" by (simp add: c1 c2 c3)
  have "adds (\<lambda>e. True) (deploy_after_copy w projectRoot extractedDir)"
    unfolding deploy_after_copy_def step_install_def step_prisma_def step_database_def Let_def
    by (intro adds_intros) simp_all
  from addsD [OF this, of s] run have "\<exists>evs. trace s' = trace s @ evs" by auto
  with run st that show thesis by blast
qed

lemma deploy_through_copy_trace:
  assumes "deploy_through_copy w projectRoot extractedDir s = (r, s')"
  shows "\<exists>evs. trace s' = trace s @ evs"
proof -
  have "adds (\<lambda>e. True) (deploy_through_copy w projectRoot extractedDir)"
    unfolding deploy_through_copy_def step_backup_def step_copy_def copy_dir_def copy_file_def
      Let_def
    by (intro adds_intros) simp_all
  from addsD [OF this, of s] assms show ?thesis by auto
qed

text \<open>
  Claim C1. Take any run of \<open>POST /deploy\<close> in which the extracted tree is found (Init),
  the backup step and the copy step return without an error, and the write of the restart
  sentinel is accepted. Then the response is the overall success response, the status
  ends in the success phase and the sentinel is on record as written. Nothing is assumed
  about \<open>bun install\<close>, about the Prisma code generation or about the copy of the data
  file: the world answers those calls as it likes, so their failures never turn the
  outcome into an error.
\<close>

theorem best_effort_steps_cannot_fail_deploy:
  assumes init: "w_existsSync w (trace s) (join (cwd w) ''extracted-system'')"
    and copy: "fst (copy_outcome w s) = Inr ()"
    and restart: "w_writeFile w (trace (before_restart w s)) (restartFile w)
                    (isoNow w (trace (before_restart w s))) = None"
  shows "fst (deploy_POST w s) = deploy_success \<and>
         d_status (deploy_GET (snd (deploy_POST w s))) = DeploySuccess \<and>
         sentinel_written w (events_since s (snd (deploy_POST w s)))"
proof -
  let ?ext = "join (cwd w) ''extracted-system''"
  let ?s1 = "emit (EvExists ?ext True) s"
  obtain s2 where c: "deploy_through_copy w (cwd w) ?ext ?s1 = (Inr (), s2)"
    using copy by (cases "deploy_through_copy w (cwd w) ?ext ?s1") (simp add: copy_outcome_def)
  obtain s3 where a: "deploy_after_copy w (cwd w) ?ext s2 = (Inr (), s3)"
    and st: "d_status (cell s3) = DeploySuccess"
    and t3: "\<exists>evs. trace s3 = trace s2 @ evs"
    by (rule deploy_after_copy_succeeds)
  have b: "before_restart w s = s3"
    by (simp add: before_restart_def copy_outcome_def c a)
  have steps: "deploy_steps w (cwd w) ?ext ?s1 = (Inr (), s3)"
    by (simp add: deploy_steps_split bind_def c a)
  let ?final = "emit (EvWrite (restartFile w) (isoNow w (trace s3)) None) s3"
  from init steps restart [unfolded b] have run: "deploy_POST w s = (deploy_success, ?final)"
    by (simp add: deploy_POST_def deploy_try_def Let_def bind_def existsSync_def
        step_restart_def writeFile_def settle_def ret_def)
  from deploy_through_copy_trace [OF c] obtain e2 where e2: "trace s2 = trace ?s1 @ e2"
    by blast
  from t3 obtain e3 where e3: "trace s3 = trace s2 @ e3" by blast
  have "sentinel_written w (events_since s ?final)"
    by (simp add: events_since_def sentinel_written_def emit_def e2 e3)
  with run st show ?thesis by (simp add: deploy_GET_def emit_def)
qed

text \<open>
  The claim in two worlds. In the first, \<open>bun install\<close> and the Prisma code generation
  are rejected and the directory for the data file cannot be created; in the second every
  path exists and \<open>bun install\<close>, the code generation and the \<open>cp\<close> of the data file are
  rejected. Both deployments report success and write
  the sentinel.
\<close>

theorem best_effort_steps_cannot_fail_deploy_witness:
  "EvExec ''bun install'' (Inl ''Command failed'')
     \<in> set (trace (snd (deploy_POST after_copy_fails_world fresh_deploy))) \<and>
   EvExec ''bun run db:generate'' (Inl ''Command failed'')
     \<in> set (trace (snd (deploy_POST after_copy_fails_world fresh_deploy))) \<and>
   EvMkdir ''/app/prisma'' (Some ''EACCES'')
     \<in> set (trace (snd (deploy_POST after_copy_fails_world fresh_deploy))) \<and>
   fst (deploy_POST after_copy_fails_world fresh_deploy) = deploy_success \<and>
   d_status (deploy_GET (snd (deploy_POST after_copy_fails_world fresh_deploy))) = DeploySuccess \<and>
   sentinel_written after_copy_fails_world
     (events_since fresh_deploy (snd (deploy_POST after_copy_fails_world fresh_deploy))) \<and>
   EvExec (''cp '' @ quoted ''/app/extracted-system/mushaf_source.db'' @ '' '' @
           quoted ''/app/prisma/dev.db'') (Inl ''Command failed'')
     \<in> set (trace (snd (deploy_POST tools_fail_world fresh_deploy))) \<and>
   fst (deploy_POST tools_fail_world fresh_deploy) = deploy_success \<and>
   sentinel_written tools_fail_world
     (events_since fresh_deploy (snd (deploy_POST tools_fail_world fresh_deploy)))"
proof -
  have i1: "w_existsSync after_copy_fails_world (trace fresh_deploy)
      (join (cwd after_copy_fails_world) ''extracted-system'')"
    by (simp add: deploy_eval after_copy_fails_world_def)
  have c1: "fst (copy_outcome after_copy_fails_world fresh_deploy) = Inr ()"
    by (simp add: deploy_eval deploy_parts after_copy_fails_world_def)
  have r1: "w_writeFile after_copy_fails_world
      (trace (before_restart after_copy_fails_world fresh_deploy))
      (restartFile after_copy_fails_world)
      (isoNow after_copy_fails_world
        (trace (before_restart after_copy_fails_world fresh_deploy))) = None"
    by (simp add: after_copy_fails_world_def quiet_world_def)
  have i2: "w_existsSync tools_fail_world (trace fresh_deploy)
      (join (cwd tools_fail_world) ''extracted-system'')"
    by (simp add: deploy_eval tools_fail_world_def)
  have c2: "fst (copy_outcome tools_fail_world fresh_deploy) = Inr ()"
    by (simp add: deploy_eval deploy_parts tools_fail_world_def)
  have r2: "w_writeFile tools_fail_world (trace (before_restart tools_fail_world fresh_deploy))
      (restartFile tools_fail_world)
      (isoNow tools_fail_world (trace (before_restart tools_fail_world fresh_deploy))) = None"
    by (simp add: tools_fail_world_def quiet_world_def)
  have f1: "EvExec ''bun install'' (Inl ''Command failed'')
     \<in> set (trace (snd (deploy_POST after_copy_fails_world fresh_deploy)))"
    by (simp add: deploy_eval after_copy_fails_world_def)
  have f2: "EvExec ''bun run db:generate'' (Inl ''Command failed'')
     \<in> set (trace (snd (deploy_POST after_copy_fails_world fresh_deploy)))"
    by (simp add: deploy_eval after_copy_fails_world_def)
  have f3: "EvMkdir ''/app/prisma'' (Some ''EACCES'')
     \<in> set (trace (snd (deploy_POST after_copy_fails_world fresh_deploy)))"
    by (simp add: deploy_eval after_copy_fails_world_def)
  have f4: "EvExec (''cp '' @ quoted ''/app/extracted-system/mushaf_source.db'' @ '' '' @
           quoted ''/app/prisma/dev.db'') (Inl ''Command failed'')
     \<in> set (trace (snd (deploy_POST tools_fail_world fresh_deploy)))"
    by (simp add: deploy_eval tools_fail_world_def)
  from best_effort_steps_cannot_fail_deploy [OF i1 c1 r1]
    best_effort_steps_cannot_fail_deploy [OF i2 c2 r2] f1 f2 f3 f4
  show ?thesis by blast
qed

text \<open>
  Claim C6 as stated fails. In a run in which \<open>bun install\<close> is rejected, the request
  still answers 200 and its \<open>steps\<close> array reports the install step as \<open>done\<close>.
\<close>

theorem failed_install_is_reported_done:
  "EvExec ''bun install'' (Inl ''Command failed: bun install'')
     \<in> set (trace (snd (deploy_POST install_fails_world fresh_deploy))) \<and>
   http_status (fst (deploy_POST install_fails_world fresh_deploy)) = 200 \<and>
   \<lparr>step = ''install'', step_status = ''done'',
    step_message = ''The dependencies were installed''\<rparr>
     \<in> set (reported_steps (fst (deploy_POST install_fails_world fresh_deploy)))"
  by (simp add: deploy_eval install_fails_world_def)

text \<open>
  Claim C6, amended. For every \<open>POST /deploy\<close> that answers 200, the response is the one
  fixed success response: its \<open>steps\<close> array lists backup, copy, install, prisma and
  restart, each with the status \<open>done\<close>, whatever the outcome of the individual steps.
\<close>

theorem deploy_steps_report_is_fixed:
  assumes "http_status (fst (deploy_POST w s)) = 200"
  shows "fst (deploy_POST w s) = deploy_success \<and>
         map step (reported_steps (fst (deploy_POST w s))) =
           [''backup'', ''copy'', ''install'', ''prisma'', ''restart''] \<and>
         map step_status (reported_steps (fst (deploy_POST w s))) =
           [''done'', ''done'', ''done'', ''done'', ''done'']"
proof -
  from deploy_POST_cases [of w s] assms have "fst (deploy_POST w s) = deploy_success"
    by (auto simp: no_extraction_found_def json_response_def)
  then show ?thesis
    by (simp add: deploy_success_def json_response_def reported_steps_def)
qed

text \<open>The amended claim in the world where only \<open>bun install\<close> fails.\<close>

theorem deploy_steps_report_is_fixed_witness:
  "http_status (fst (deploy_POST install_fails_world fresh_deploy)) = 200 \<and>
   map step_status (reported_steps (fst (deploy_POST install_fails_world fresh_deploy))) =
     [''done'', ''done'', ''done'', ''done'', ''done'']"
proof -
  have h: "http_status (fst (deploy_POST install_fails_world fresh_deploy)) = 200"
    by (simp add: deploy_eval install_fails_world_def)
  from deploy_steps_report_is_fixed [OF h] h show ?thesis by blast
qed

text \<open>
  Claim C8. When no extracted tree exists at the extraction directory, \<open>POST /deploy\<close>
  answers at once with the error that no extraction was found (status 400), and the
  existence check is the only call the request has made: no backup, no copy and no later
  step was attempted.
\<close>

theorem deploy_without_extraction_fails_fast:
  assumes "\<not> w_existsSync w (trace s) (join (cwd w) ''extracted-system'')"
  shows "fst (deploy_POST w s) = no_extraction_found \<and>
         http_status (fst (deploy_POST w s)) = 400 \<and>
         events_since s (snd (deploy_POST w s)) =
           [EvExists (join (cwd w) ''extracted-system'') False]"
  using assms
  by (simp add: deploy_POST_not_found events_since_def emit_def no_extraction_found_def
      json_response_def)

text \<open>The claim in the world where no path exists.\<close>

theorem deploy_without_extraction_fails_fast_witness:
  "\<not> w_existsSync nothing_extracted_world (trace fresh_deploy)
       (join (cwd nothing_extracted_world) ''extracted-system'') \<and>
   fst (deploy_POST nothing_extracted_world fresh_deploy) = no_extraction_found \<and>
   events_since fresh_deploy (snd (deploy_POST nothing_extracted_world fresh_deploy)) =
     [EvExists (join (cwd nothing_extracted_world) ''extracted-system'') False]"
proof -
  have h: "\<not> w_existsSync nothing_extracted_world (trace fresh_deploy)
       (join (cwd nothing_extracted_world) ''extracted-system'')"
    by (simp add: nothing_extracted_world_def)
  from deploy_without_extraction_fails_fast [OF h] h show ?thesis by blast
qed

text \<open>
  Claim C10. When \<open>POST /deploy\<close> fails because no extracted tree exists, the status
  singleton is left as it was: the request has assigned nothing to it, so a client that
  polls \<open>GET\<close> still reads the final state of the previous run.
\<close>

theorem deploy_without_extraction_keeps_status:
  assumes "\<not> w_existsSync w (trace s) (join (cwd w) ''extracted-system'')"
  shows "deploy_GET (snd (deploy_POST w s)) = deploy_GET s \<and>
         seen (snd (deploy_POST w s)) = seen s"
  using assms by (simp add: deploy_POST_not_found deploy_GET_def emit_def)

text \<open>The claim after an earlier successful deployment.\<close>

theorem deploy_without_extraction_keeps_status_witness:
  "\<not> w_existsSync nothing_extracted_world (trace deployed_before)
       (join (cwd nothing_extracted_world) ''extracted-system'') \<and>
   deploy_GET (snd (deploy_POST nothing_extracted_world deployed_before)) =
     deploy_GET deployed_before \<and>
   d_status (deploy_GET deployed_before) = DeploySuccess"
proof -
  have h: "\<not> w_existsSync nothing_extracted_world (trace deployed_before)
       (join (cwd nothing_extracted_world) ''extracted-system'')"
    by (simp add: nothing_extracted_world_def)
  have d: "d_status (deploy_GET deployed_before) = DeploySuccess"
    by (simp add: deploy_GET_def deployed_before_def)
  from deploy_without_extraction_keeps_status [OF h] h d show ?thesis by blast
qed

section \<open>The upload route: how a request runs\<close>

lemma file_entry_of_step:
  "file_entry_of w d f s =
     (if relative_to d f \<noteq> [] then
        (Inr [\<lparr>e_path = relative_to d f,
               e_size = (case w_stat w (trace s) f of Inl e \<Rightarrow> 0 | Inr n \<Rightarrow> n), e_type = File\<rparr>],
         s\<lparr>trace := trace s @ [EvStat f (w_stat w (trace s) f)]\<rparr>)
      else (Inr [], s))"
  by (simp add: file_entry_of_def Let_def io_defs split: sum.splits)

lemma collect_file_entries:
  "collect fs (file_entry_of w d) s =
     (Inr (stat_entries w d fs (trace s)), s\<lparr>trace := trace s @ stat_events w d fs (trace s)\<rparr>)"
proof (induction fs arbitrary: s)
  case Nil
  show ?case by (simp add: ret_def)
next
  case (Cons f fs)
  obtain ys s1 where step: "file_entry_of w d f s = (Inr ys, s1)"
    and ys: "ys = (if relative_to d f \<noteq> [] then
        [\<lparr>e_path = relative_to d f,
          e_size = (case w_stat w (trace s) f of Inl e \<Rightarrow> 0 | Inr n \<Rightarrow> n), e_type = File\<rparr>]
        else [])"
    and s1: "s1 = (if relative_to d f \<noteq> [] then
        s\<lparr>trace := trace s @ [EvStat f (w_stat w (trace s) f)]\<rparr> else s)"
    by (simp add: file_entry_of_step)
  have "collect (f # fs) (file_entry_of w d) s =
      (Inr (ys @ stat_entries w d fs (trace s1)),
       s1\<lparr>trace := trace s1 @ stat_events w d fs (trace s1)\<rparr>)"
    by (simp only: collect.simps bind_def step Cons prod.case sum.case ret_def)
  then show ?case
    by (simp add: ys s1)
qed

lemma stat_events_is_stat: "list_all is_stat (stat_events w d fs h)"
  by (induction fs arbitrary: h) simp_all



lemmas upload_defs = upload_POST_def upload_try_def upload_catch_def save_upload_def
  prepare_extraction_dir_def extract_and_list_def fail_extraction_def finish_upload_def
  list_extracted_def extractArchive_def

lemma upload_unknown:
  assumes "req_formData req = Inr (FileEntry file)" and "detectFileType (file_name file) = Unknown"
  shows "upload_POST w req s =
    (unsupported_format,
     s\<lparr>cell := extractionStatus_reset, seen := seen s @ [extractionStatus_reset],
       trace := trace s @ [EvLog ''Starting upload process...'', EvLog ''Incoming file size:'',
                           EvFormData (Inr (FileEntry file))]\<rparr>)"
  using assms by (simp add: upload_POST_def upload_try_def io_defs Let_def)

lemma extractArchive_eq:
  assumes "extract_command t fp d = Some cmd"
  shows "extractArchive w fp d t s =
     (case w_exec w (trace s @ [EvLog (extract_log t)]) cmd of
        Inl e \<Rightarrow>
          (Inr \<lparr>success = False, items = [], error_of = Some e\<rparr>,
           s\<lparr>trace := trace s @ [EvLog (extract_log t), EvExec cmd (Inl e),
                                 EvLog ''Extraction error:'']\<rparr>)
      | Inr (out, err) \<Rightarrow>
          (Inr \<lparr>success = True, items = parse_items t (out @ err), error_of = None\<rparr>,
           s\<lparr>trace := trace s @ [EvLog (extract_log t), EvExec cmd (Inr (out, err)),
                                 EvLog ''Extracted items from archive'']\<rparr>))"
  using assms
  by (simp add: extractArchive_def io_defs Let_def split: sum.splits prod.splits)

lemma fail_extraction_eq:
  "fail_extraction e s =
     (Inr (json_response 500 (StatusError e)),
      s\<lparr>cell := (cell s)\<lparr>status := UploadError, error := e\<rparr>,
        seen := seen s @ [(cell s)\<lparr>status := UploadError\<rparr>,
                          (cell s)\<lparr>status := UploadError, error := e\<rparr>]\<rparr>)"
  by (simp add: fail_extraction_def io_defs)

lemma finish_upload_eq:
  "finish_upload w t tempDir d fl n s =
     (Inr (json_response 200 (Payload
        \<lparr>r_status = ''success'', r_message = ''The system files were extracted'',
         r_files = fl, r_totalFiles = n, r_fileType = fileType_text t, r_extractedPath = d\<rparr>)),
      s\<lparr>cell := (cell s)\<lparr>files := fl, totalFiles := n, status := UploadSuccess,
                          message := ''The files were extracted!'', progress := 100\<rparr>,
        seen := seen s @
          [(cell s)\<lparr>files := fl\<rparr>,
           (cell s)\<lparr>files := fl, totalFiles := n\<rparr>,
           (cell s)\<lparr>files := fl, totalFiles := n, status := UploadSuccess\<rparr>,
           (cell s)\<lparr>files := fl, totalFiles := n, status := UploadSuccess,
                     message := ''The files were extracted!''\<rparr>,
           (cell s)\<lparr>files := fl, totalFiles := n, status := UploadSuccess,
                     message := ''The files were extracted!'', progress := 100\<rparr>],
        trace := trace s @ EvRm tempDir (w_rm w (trace s) tempDir) #
                   cleanup_log (w_rm w (trace s) tempDir) @
                   [EvLog ''Upload and extraction completed'']\<rparr>)"
  by (simp add: finish_upload_def io_defs cleanup_log_def Let_def split: option.splits)

lemma find_commands_start:
  "startsWith (find_files_command d) ''find ''"
  "startsWith (find_dirs_command d) ''find ''"
  "startsWith (count_files_command d) ''find ''"
  by (simp_all add: startsWith_def find_files_command_def find_dirs_command_def
      count_files_command_def)

lemma list_extracted_run:
  assumes "list_extracted w d s = (res, s')"
  obtains (threw) e post where "res = Inl e" "trace s' = trace s @ post"
      "list_all listing_event post" "cell s' = cell s" "seen s' = seen s"
  | (listed) fout ferr dout derr cout cerr h where
      "res = Inr (concat (map (dir_entry d) (take 100 (nonblank_lines dout))) @
                  stat_entries w d (take 500 (nonblank_lines fout)) h,
                  number_or (parseInt (trim cout)) (int (length (nonblank_lines fout))))"
      "trace s' = trace s @
         [EvLog ''Reading file list...'', EvExec (find_files_command d) (Inr (fout, ferr)),
          EvExec (find_dirs_command d) (Inr (dout, derr)), EvLog ''Found files and directories'',
          EvExec (count_files_command d) (Inr (cout, cerr))] @
         stat_events w d (take 500 (nonblank_lines fout)) h"
      "cell s' = cell s" "seen s' = seen s"
proof -
  define h1 where "h1 = trace s @ [EvLog ''Reading file list...'']"
  define r1 where "r1 = w_exec w h1 (find_files_command d)"
  define h2 where "h2 = h1 @ [EvExec (find_files_command d) r1]"
  define r2 where "r2 = w_exec w h2 (find_dirs_command d)"
  define h3 where "h3 = h2 @ [EvExec (find_dirs_command d) r2, EvLog ''Found files and directories'']"
  define r3 where "r3 = w_exec w h3 (count_files_command d)"
  define h4 where "h4 = h3 @ [EvExec (count_files_command d) r3]"
  show thesis
  proof (cases r1)
    case (Inl e)
    with assms have "res = Inl e" "s' = s\<lparr>trace := h2\<rparr>"
      by (auto simp: list_extracted_def io_defs h1_def h2_def r1_def)
    then show thesis
      by (intro threw [of e "[EvLog ''Reading file list...'', EvExec (find_files_command d) r1]"])
        (simp_all add: h2_def h1_def find_commands_start)
  next
    case f: (Inr fo)
    obtain fout ferr where fo: "fo = (fout, ferr)" by (cases fo)
    show thesis
    proof (cases r2)
      case (Inl e)
      with assms f fo have "res = Inl e" "s' = s\<lparr>trace := h2 @ [EvExec (find_dirs_command d) r2]\<rparr>"
        by (auto simp: list_extracted_def io_defs h1_def h2_def r1_def r2_def Let_def)
      then show thesis
        by (intro threw [of e "[EvLog ''Reading file list...'', EvExec (find_files_command d) r1,
              EvExec (find_dirs_command d) r2]"])
          (simp_all add: h3_def h2_def h1_def find_commands_start)
    next
      case g: (Inr dd)
      obtain dout derr where dd: "dd = (dout, derr)" by (cases dd)
      show thesis
      proof (cases r3)
        case (Inl e)
        with assms f fo g dd have "res = Inl e" "s' = s\<lparr>trace := h4\<rparr>"
          by (auto simp: list_extracted_def io_defs h1_def h2_def h3_def h4_def r1_def r2_def r3_def
              Let_def)
        then show thesis
          by (intro threw [of e "[EvLog ''Reading file list...'', EvExec (find_files_command d) r1,
              EvExec (find_dirs_command d) r2, EvLog ''Found files and directories'',
              EvExec (count_files_command d) r3]"])
            (simp_all add: h4_def h3_def h2_def h1_def find_commands_start)
      next
        case c: (Inr cc)
        obtain cout cerr where cc: "cc = (cout, cerr)" by (cases cc)
        from assms f fo g dd c cc have
          "res = Inr (concat (map (dir_entry d) (take 100 (nonblank_lines dout))) @
                  stat_entries w d (take 500 (nonblank_lines fout)) h4,
                  number_or (parseInt (trim cout)) (int (length (nonblank_lines fout))))"
          "s' = s\<lparr>trace := h4 @ stat_events w d (take 500 (nonblank_lines fout)) h4\<rparr>"
          by (auto simp: list_extracted_def io_defs h1_def h2_def h3_def h4_def r1_def r2_def r3_def
              Let_def collect_file_entries)
        then show thesis
          using f fo g dd c cc
          by (intro listed [of dout fout h4 cout ferr derr cerr])
            (simp_all add: h4_def h3_def h2_def h1_def)
      qed
    qed
  qed
qed

lemma extract_command_Some: "t \<noteq> Unknown \<Longrightarrow> \<exists>cmd. extract_command t fp d = Some cmd"
  by (cases t) (simp_all add: extract_command_def)

lemma extract_and_list_run:
  assumes run: "extract_and_list w t tempDir fp d s = (res, s')" and t: "t \<noteq> Unknown"
  obtains (tool_failed) cmd e where
      "extract_command t fp d = Some cmd"
      "trace s' = trace s @ [EvLog (extract_log t), EvExec cmd (Inl e), EvLog ''Extraction error:'']"
      "res = Inr (json_response 500 (StatusError (string_or (Some e) ''The file could not be extracted'')))"
      "status (cell s') = UploadError"
  | (empty) cmd out err where
      "extract_command t fp d = Some cmd" "parse_items t (out @ err) = []"
      "trace s' = trace s @ [EvLog (extract_log t), EvExec cmd (Inr (out, err)),
                             EvLog ''Extracted items from archive'']"
      "res = Inr (json_response 500 (StatusError empty_archive_message))"
      "status (cell s') = UploadError" "error (cell s') = empty_archive_message"
  | (listing_threw) cmd out err e post where
      "extract_command t fp d = Some cmd" "parse_items t (out @ err) \<noteq> []"
      "trace s' = trace s @ [EvLog (extract_log t), EvExec cmd (Inr (out, err)),
                             EvLog ''Extracted items from archive''] @ post"
      "list_all listing_event post" "res = Inl e"
  | (extracted) cmd out err fout ferr dout derr cout cerr h r where
      "extract_command t fp d = Some cmd" "parse_items t (out @ err) \<noteq> []"
      "trace s' = trace s @
         [EvLog (extract_log t), EvExec cmd (Inr (out, err)), EvLog ''Extracted items from archive'',
          EvLog ''Reading file list...'', EvExec (find_files_command d) (Inr (fout, ferr)),
          EvExec (find_dirs_command d) (Inr (dout, derr)), EvLog ''Found files and directories'',
          EvExec (count_files_command d) (Inr (cout, cerr))] @
         stat_events w d (take 500 (nonblank_lines fout)) h @
         EvRm tempDir r # cleanup_log r @ [EvLog ''Upload and extraction completed'']"
      "res = Inr (json_response 200 (Payload
          \<lparr>r_status = ''success'', r_message = ''The system files were extracted'',
           r_files = concat (map (dir_entry d) (take 100 (nonblank_lines dout))) @
                     stat_entries w d (take 500 (nonblank_lines fout)) h,
           r_totalFiles = number_or (parseInt (trim cout)) (int (length (nonblank_lines fout))),
           r_fileType = fileType_text t, r_extractedPath = d\<rparr>))"
      "status (cell s') = UploadSuccess"
      "totalFiles (cell s') = number_or (parseInt (trim cout)) (int (length (nonblank_lines fout)))"
proof -
  from extract_command_Some [OF t] obtain cmd where cmd: "extract_command t fp d = Some cmd"
    by blast
  define rx where "rx = w_exec w (trace s @ [EvLog (extract_log t)]) cmd"
  show thesis
  proof (cases rx)
    case (Inl e)
    with run have
      "res = Inr (json_response 500 (StatusError (string_or (Some e) ''The file could not be extracted'')))"
      "trace s' = trace s @ [EvLog (extract_log t), EvExec cmd (Inl e), EvLog ''Extraction error:'']"
      "status (cell s') = UploadError"
      by (auto simp: extract_and_list_def bind_def extractArchive_eq [OF cmd] rx_def
          fail_extraction_eq)
    with cmd show thesis by (intro tool_failed [of cmd e])
  next
    case (Inr oe)
    obtain out err where oe: "oe = (out, err)" by (cases oe)
    define s1 where "s1 = s\<lparr>trace := trace s @ [EvLog (extract_log t), EvExec cmd (Inr (out, err)),
                                 EvLog ''Extracted items from archive'']\<rparr>"
    have ex: "extractArchive w fp d t s =
        (Inr \<lparr>success = True, items = parse_items t (out @ err), error_of = None\<rparr>, s1)"
      using Inr oe by (simp add: extractArchive_eq [OF cmd] rx_def [symmetric] s1_def)
    show thesis
    proof (cases "parse_items t (out @ err) = []")
      case True
      with run ex have
        "res = Inr (json_response 500 (StatusError empty_archive_message))"
        "trace s' = trace s1" "status (cell s') = UploadError"
        "error (cell s') = empty_archive_message"
        by (auto simp: extract_and_list_def bind_def fail_extraction_eq)
      with cmd True show thesis by (intro empty [of cmd out err]) (simp_all add: s1_def)
    next
      case False
      define s2 where "s2 = snd (block
         [assign (\<lambda>u. u\<lparr>progress := 55\<rparr>),
          assign (\<lambda>u. u\<lparr>message :=
            ''Found '' @ show_nat (length (parse_items t (out @ err))) @ '' items''\<rparr>),
          assign (\<lambda>u. u\<lparr>message := ''Reading the list of files...''\<rparr>),
          assign (\<lambda>u. u\<lparr>progress := 65\<rparr>)] s1)"
      have s2: "trace s2 = trace s1"
        by (simp add: s2_def io_defs)
      obtain lres s3 where l: "list_extracted w d s2 = (lres, s3)"
        by (cases "list_extracted w d s2")
      have step: "extract_and_list w t tempDir fp d s =
         (case lres of Inl e \<Rightarrow> (Inl e, s3)
          | Inr (fileList, fileCount) \<Rightarrow> finish_upload w t tempDir d fileList fileCount s3)"
        using False ex l
        by (simp add: extract_and_list_def bind_def s2_def io_defs split: sum.splits prod.splits)
      from l show thesis
      proof (cases rule: list_extracted_run)
        case (threw e post)
        with step run have "res = Inl e" "s' = s3" by simp_all
        with threw s2 cmd False show thesis
          by (intro listing_threw [of cmd out err post e]) (simp_all add: s1_def)
      next
        case (listed fout ferr dout derr cout cerr h)
        define r where "r = w_rm w (trace s3) tempDir"
        from listed step run have
          "res = Inr (json_response 200 (Payload
            \<lparr>r_status = ''success'', r_message = ''The system files were extracted'',
             r_files = concat (map (dir_entry d) (take 100 (nonblank_lines dout))) @
                       stat_entries w d (take 500 (nonblank_lines fout)) h,
             r_totalFiles = number_or (parseInt (trim cout)) (int (length (nonblank_lines fout))),
             r_fileType = fileType_text t, r_extractedPath = d\<rparr>))"
          "trace s' = trace s3 @ EvRm tempDir r # cleanup_log r @
              [EvLog ''Upload and extraction completed'']"
          "status (cell s') = UploadSuccess"
          "totalFiles (cell s') = number_or (parseInt (trim cout)) (int (length (nonblank_lines fout)))"
          by (auto simp: finish_upload_eq r_def)
        with listed s2 cmd False show thesis
          by (intro extracted [where cmd = cmd and out = out and err = err and fout = fout
                and ferr = ferr and dout = dout and derr = derr and cout = cout and cerr = cerr
                and h = h and r = r])
            (simp_all add: s1_def)
      qed
    qed
  qed
qed

lemma first_mkdir_append:
  "first_mkdir (xs @ ys) = (case first_mkdir xs of Some d \<Rightarrow> Some d | None \<Rightarrow> first_mkdir ys)"
  by (induction xs rule: first_mkdir.induct) simp_all

lemma save_upload_run:
  assumes "save_upload w req file t s = (r, s1)"
  shows "\<exists>evs. trace s1 = trace s @ evs \<and> list_all (\<lambda>e. \<not> is_exec e) evs \<and>
           (\<forall>tempDir fp. r = Inr (tempDir, fp) \<longrightarrow> first_mkdir evs = Some tempDir)"
  using assms
  by (auto simp: save_upload_def io_defs split: sum.splits option.splits if_splits)

lemma prepare_extraction_dir_run:
  assumes "prepare_extraction_dir w s = (r, s1)"
  shows "\<exists>evs. trace s1 = trace s @ evs \<and> list_all (\<lambda>e. \<not> is_exec e) evs \<and>
           (\<forall>d. r = Inr d \<longrightarrow> d = join (cwd w) ''extracted-system'')"
  using assms
  by (auto simp: prepare_extraction_dir_def io_defs split: sum.splits option.splits if_splits)

lemma upload_try_run:
  assumes run: "upload_try w req s = (res, s')"
  obtains (rejected) pre where
      "trace s' = trace s @ pre" "list_all (\<lambda>e. \<not> is_exec e) pre"
      "\<And>resp. res = Inr resp \<Longrightarrow> http_status resp = 400"
  | (staged) upl t tempDir fp s2 pre where
      "req_formData req = Inr (FileEntry upl)" "t = detectFileType (file_name upl)"
      "t \<noteq> Unknown" "trace s2 = trace s @ pre" "list_all (\<lambda>e. \<not> is_exec e) pre"
      "first_mkdir pre = Some tempDir"
      "extract_and_list w t tempDir fp (join (cwd w) ''extracted-system'') s2 = (res, s')"
proof -
  define s0 where "s0 = s\<lparr>cell := extractionStatus_reset, seen := seen s @ [extractionStatus_reset],
       trace := trace s @ [EvLog ''Starting upload process...'', EvLog ''Incoming file size:'',
                           EvFormData (req_formData req)]\<rparr>"
  show thesis
  proof (cases "req_formData req")
    case (Inl e)
    with run have "res = Inl e" "s' = s0"
      by (auto simp: upload_try_def io_defs s0_def)
    then show thesis
      by (intro rejected [of "[EvLog ''Starting upload process...'', EvLog ''Incoming file size:'',
                           EvFormData (req_formData req)]"]) (simp_all add: s0_def)
  next
    case (Inr entry)
    show thesis
    proof (cases entry)
      case NoEntry
      with run Inr have "res = Inr no_file_found"
        "s' = s0\<lparr>trace := trace s0 @ [EvLog ''No file found in form data'']\<rparr>"
        by (auto simp: upload_try_def io_defs s0_def)
      then show thesis
        by (intro rejected [of "[EvLog ''Starting upload process...'', EvLog ''Incoming file size:'',
              EvFormData (req_formData req), EvLog ''No file found in form data'']"])
          (simp_all add: s0_def no_file_found_def json_response_def)
    next
      case (TextEntry body_text)
      show thesis
      proof (cases "body_text = []")
        case True
        with run Inr TextEntry have "res = Inr no_file_found"
          "s' = s0\<lparr>trace := trace s0 @ [EvLog ''No file found in form data'']\<rparr>"
          by (auto simp: upload_try_def io_defs s0_def)
        then show thesis
          by (intro rejected [of "[EvLog ''Starting upload process...'',
                EvLog ''Incoming file size:'', EvFormData (req_formData req),
                EvLog ''No file found in form data'']"])
            (simp_all add: s0_def no_file_found_def json_response_def)
      next
        case False
        with run Inr TextEntry have "\<exists>e. res = Inl e" "s' = s0"
          by (auto simp: upload_try_def io_defs s0_def)
        then show thesis
          by (intro rejected [of "[EvLog ''Starting upload process...'',
                EvLog ''Incoming file size:'', EvFormData (req_formData req)]"])
            (auto simp: s0_def)
      qed
    next
      case (FileEntry upl)
      define t where "t = detectFileType (file_name upl)"
      show thesis
      proof (cases "t = Unknown")
        case True
        with run Inr FileEntry have "res = Inr unsupported_format" "s' = s0"
          by (auto simp: upload_try_def io_defs s0_def t_def)
        then show thesis
          by (intro rejected [of "[EvLog ''Starting upload process...'', EvLog ''Incoming file size:'',
                           EvFormData (req_formData req)]"])
            (simp_all add: s0_def unsupported_format_def json_response_def)
      next
        case False
        obtain r1 s1 where sv: "save_upload w req upl t s0 = (r1, s1)"
          by (cases "save_upload w req upl t s0")
        from save_upload_run [OF sv] obtain ev1 where ev1: "trace s1 = trace s0 @ ev1"
          "list_all (\<lambda>e. \<not> is_exec e) ev1"
          "\<And>tempDir fp. r1 = Inr (tempDir, fp) \<Longrightarrow> first_mkdir ev1 = Some tempDir"
          by blast
        have start: "upload_try w req s =
           bind (save_upload w req upl t) (\<lambda>(tempDir, tempFilePath).
           bind (prepare_extraction_dir w) (\<lambda>extractedDir.
           extract_and_list w t tempDir tempFilePath extractedDir)) s0"
          using Inr FileEntry False
          by (simp add: upload_try_def io_defs s0_def t_def)
        show thesis
        proof (cases r1)
          case (Inl e)
          with start sv run have "res = Inl e" "s' = s1" by (simp_all add: bind_def)
          with ev1 show thesis
            by (intro rejected [of "[EvLog ''Starting upload process...'', EvLog ''Incoming file size:'',
                           EvFormData (req_formData req)] @ ev1"]) (simp_all add: s0_def)
        next
          case r1: (Inr p)
          obtain tempDir fp where p: "p = (tempDir, fp)" by (cases p)
          obtain r2 s2 where pr: "prepare_extraction_dir w s1 = (r2, s2)"
            by (cases "prepare_extraction_dir w s1")
          from prepare_extraction_dir_run [OF pr] obtain ev2 where ev2: "trace s2 = trace s1 @ ev2"
            "list_all (\<lambda>e. \<not> is_exec e) ev2"
            "\<And>d. r2 = Inr d \<Longrightarrow> d = join (cwd w) ''extracted-system''"
            by blast
          show thesis
          proof (cases r2)
            case (Inl e)
            with start sv pr r1 p run have "res = Inl e" "s' = s2" by (simp_all add: bind_def)
            with ev1 ev2 show thesis
              by (intro rejected [of "[EvLog ''Starting upload process...'',
                    EvLog ''Incoming file size:'', EvFormData (req_formData req)] @ ev1 @ ev2"])
                (simp_all add: s0_def)
          next
            case (Inr d)
            with ev2 have d: "d = join (cwd w) ''extracted-system''" by simp
            from start sv pr r1 p run Inr d
            have go: "extract_and_list w t tempDir fp (join (cwd w) ''extracted-system'') s2 = (res, s')"
              by (simp add: bind_def)
            from ev1(3) r1 p have fm: "first_mkdir ev1 = Some tempDir" by simp
            show thesis
              using \<open>req_formData req = Inr entry\<close> FileEntry False ev1 ev2 fm go
              by (intro staged [where upl = upl and t = t and tempDir = tempDir and fp = fp
                    and ?s2.0 = s2
                    and pre = "[EvLog ''Starting upload process...'', EvLog ''Incoming file size:'',
                           EvFormData (req_formData req)] @ ev1 @ ev2"])
                (simp_all add: s0_def t_def first_mkdir_append)
          qed
        qed
      qed
    qed
  qed
qed

section \<open>Numbers in text: \<open>parseInt\<close> reads what \<open>wc\<close> prints\<close>














lemma digit_chars:
  "char_of (48::nat) = CHR ''0''" "char_of (49::nat) = CHR ''1''" "char_of (50::nat) = CHR ''2''"
  "char_of (51::nat) = CHR ''3''" "char_of (52::nat) = CHR ''4''" "char_of (53::nat) = CHR ''5''"
  "char_of (54::nat) = CHR ''6''" "char_of (55::nat) = CHR ''7''" "char_of (56::nat) = CHR ''8''"
  "char_of (57::nat) = CHR ''9''"
  by code_simp+

section \<open>The upload route: theorems\<close>

lemma extract_command_kind:
  assumes "extract_command t a b = Some c" and "extract_command t' a' b' = Some c"
  shows "t = t'"
  using assms
  by (cases t; cases t') (auto simp: extract_command_def)

lemma extract_command_not_find:
  assumes "extract_command t a b = Some c"
  shows "\<not> startsWith c ''find ''"
  using assms by (cases t) (auto simp: extract_command_def startsWith_def)

lemma not_exec_member:
  "list_all (\<lambda>e. \<not> is_exec e) evs \<Longrightarrow> EvExec c r \<notin> set evs"
  by (auto simp: list_all_iff)

lemma stat_events_no_exec: "EvExec c r \<notin> set (stat_events w d fs h)"
  using stat_events_is_stat [of w d fs h] by (auto simp: list_all_iff)

lemma cleanup_log_no_exec: "EvExec c r \<notin> set (cleanup_log x)"
  by (simp add: cleanup_log_def split: option.splits)

lemma listing_event_member:
  "list_all listing_event post \<Longrightarrow> EvExec c r \<in> set post \<Longrightarrow> startsWith c ''find ''"
  by (auto simp: list_all_iff)

lemma upload_catch_eq:
  "upload_catch e s =
     (json_response 500 (StatusError e),
      s\<lparr>cell := (cell s)\<lparr>status := UploadError, error := e\<rparr>,
        seen := seen s @ [(cell s)\<lparr>status := UploadError\<rparr>,
                          (cell s)\<lparr>status := UploadError, error := e\<rparr>],
        trace := trace s @ [EvLog ''Upload error:'']\<rparr>)"
  by (simp add: upload_catch_def io_defs)

lemma upload_POST_of_try:
  assumes "upload_try w req s = (res, s1)"
  shows "upload_POST w req s =
      (case res of Inr resp \<Rightarrow> (resp, s1) | Inl e \<Rightarrow> upload_catch e s1)"
  using assms by (simp add: upload_POST_def split: sum.splits)

lemma upload_POST_200:
  assumes ok: "http_status (fst (upload_POST w req s)) = 200"
  obtains upl t tempDir fp pre cmd out err fout ferr dout derr cout cerr h r where
    "req_formData req = Inr (FileEntry upl)" "t = detectFileType (file_name upl)"
    "list_all (\<lambda>e. \<not> is_exec e) pre" "first_mkdir pre = Some tempDir"
    "extract_command t fp (join (cwd w) ''extracted-system'') = Some cmd"
    "parse_items t (out @ err) \<noteq> []"
    "events_since s (snd (upload_POST w req s)) =
       pre @
       [EvLog (extract_log t), EvExec cmd (Inr (out, err)), EvLog ''Extracted items from archive'',
        EvLog ''Reading file list...'',
        EvExec (find_files_command (join (cwd w) ''extracted-system'')) (Inr (fout, ferr)),
        EvExec (find_dirs_command (join (cwd w) ''extracted-system'')) (Inr (dout, derr)),
        EvLog ''Found files and directories'',
        EvExec (count_files_command (join (cwd w) ''extracted-system'')) (Inr (cout, cerr))] @
       stat_events w (join (cwd w) ''extracted-system'') (take 500 (nonblank_lines fout)) h @
       EvRm tempDir r # cleanup_log r @ [EvLog ''Upload and extraction completed'']"
    "fst (upload_POST w req s) = json_response 200 (Payload
        \<lparr>r_status = ''success'', r_message = ''The system files were extracted'',
         r_files = concat (map (dir_entry (join (cwd w) ''extracted-system''))
                     (take 100 (nonblank_lines dout))) @
                   stat_entries w (join (cwd w) ''extracted-system'')
                     (take 500 (nonblank_lines fout)) h,
         r_totalFiles = number_or (parseInt (trim cout)) (int (length (nonblank_lines fout))),
         r_fileType = fileType_text t, r_extractedPath = join (cwd w) ''extracted-system''\<rparr>)"
    "status (cell (snd (upload_POST w req s))) = UploadSuccess"
    "totalFiles (cell (snd (upload_POST w req s))) =
       number_or (parseInt (trim cout)) (int (length (nonblank_lines fout)))"
proof -
  obtain res s1 where utry: "upload_try w req s = (res, s1)"
    by (cases "upload_try w req s")
  note post = upload_POST_of_try [OF utry]
  from utry show thesis
  proof (cases rule: upload_try_run)
    case (rejected pre)
    with post ok show thesis
      by (cases res) (auto simp: upload_catch_eq json_response_def)
  next
    case (staged upl t tempDir fp s2 pre)
    from staged(7) staged(3) show thesis
    proof (cases rule: extract_and_list_run)
      case (tool_failed cmd e)
      with post ok show thesis by (simp add: json_response_def)
    next
      case (empty cmd out err)
      with post ok show thesis by (simp add: json_response_def)
    next
      case (listing_threw cmd out err e post')
      with post ok show thesis by (simp add: upload_catch_eq json_response_def)
    next
      case (extracted cmd out err fout ferr dout derr cout cerr h r)
      show thesis
      proof (rule that [where upl = upl and t = t and tempDir = tempDir and fp = fp and pre = pre and cmd = cmd
            and out = out and err = err and fout = fout and ferr = ferr and dout = dout
            and derr = derr and cout = cout and cerr = cerr and h = h and r = r])
        show "events_since s (snd (upload_POST w req s)) =
           pre @
           [EvLog (extract_log t), EvExec cmd (Inr (out, err)), EvLog ''Extracted items from archive'',
            EvLog ''Reading file list...'',
            EvExec (find_files_command (join (cwd w) ''extracted-system'')) (Inr (fout, ferr)),
            EvExec (find_dirs_command (join (cwd w) ''extracted-system'')) (Inr (dout, derr)),
            EvLog ''Found files and directories'',
            EvExec (count_files_command (join (cwd w) ''extracted-system'')) (Inr (cout, cerr))] @
           stat_events w (join (cwd w) ''extracted-system'') (take 500 (nonblank_lines fout)) h @
           EvRm tempDir r # cleanup_log r @ [EvLog ''Upload and extraction completed'']"
          using post extracted(3,4) staged(4) by (simp add: events_since_def)
      qed (use post staged extracted in auto)
    qed
  qed
qed







subsection \<open>Evaluating a request in a concrete world\<close>

lemmas upload_eval = upload_defs io_defs quiet_world_def fresh_upload_def tar_request_def
  txt_request_def events_since_def upload_GET_def json_response_def show_nat.simps
  extract_command_def extract_log_def join_def quoted_def tempExt_of_def fileType_text_def
  detectFileType_def toLowerCase_def toLowerChar_def isUpper_def endsWith_def startsWith_def
  extractionStatus_reset_def extractionStatus_initial_def empty_archive_message_def
  string_or_def unsupported_format_def no_file_found_def digit_chars

lemmas text_eval = parse_items_def nonblank_lines_def split_newline_def trim_def isSpace_def
  newline_def find_files_command_def find_dirs_command_def count_files_command_def
  parseInt_def parse_unsigned_def parse_digits_def digits_value_def is_digit_in_def
  digit_of_def number_or_def relative_to_def strip_leading_slash_def dir_entry_def
  file_entry_of_def cleanup_log_def

subsection \<open>The claims about the upload route\<close>

text \<open>
  Claim C3 as stated fails. The request for \<open>notes.txt\<close> is rejected, and what it has
  done to the status is not to record the error: the status was idle before, and after
  the request its phase is \<open>extracting\<close>, its progress 5 and its error empty.
\<close>

theorem unknown_upload_resets_status_only:
  "fst (upload_POST quiet_world txt_request fresh_upload) = unsupported_format \<and>
   upload_GET fresh_upload = extractionStatus_initial \<and>
   status (upload_GET (snd (upload_POST quiet_world txt_request fresh_upload))) = Extracting \<and>
   progress (upload_GET (snd (upload_POST quiet_world txt_request fresh_upload))) = 5 \<and>
   error (upload_GET (snd (upload_POST quiet_world txt_request fresh_upload))) = []"
  by (simp add: upload_eval)

text \<open>
  Claim C3, amended. For every upload whose file name classifies as \<open>Unknown\<close>,
  \<open>POST /upload\<close> answers with the validation error (status 400) and has made no call
  that changes the file system. The status was overwritten by the reset at the start of
  the request; after that reset nothing but its phase and its error has changed.
\<close>

theorem unknown_upload_is_rejected_early:
  assumes "req_formData req = Inr (FileEntry upl)"
    and "detectFileType (file_name upl) = Unknown"
  shows "fst (upload_POST w req s) = unsupported_format \<and>
         http_status (fst (upload_POST w req s)) = 400 \<and>
         \<not> list_ex fs_mutation (events_since s (snd (upload_POST w req s))) \<and>
         (\<exists>rest. seen (snd (upload_POST w req s)) = seen s @ extractionStatus_reset # rest \<and>
                 list_all (\<lambda>u. same_but_outcome u extractionStatus_reset) rest) \<and>
         same_but_outcome (upload_GET (snd (upload_POST w req s))) extractionStatus_reset"
  unfolding upload_unknown [OF assms]
  by (simp add: unsupported_format_def json_response_def events_since_def upload_GET_def
      same_but_outcome_def)

text \<open>The amended claim for the upload of \<open>notes.txt\<close>.\<close>

theorem unknown_upload_is_rejected_early_witness:
  "req_formData txt_request = Inr (FileEntry \<lparr>file_name = ''notes.txt'', file_size = 12\<rparr>) \<and>
   detectFileType ''notes.txt'' = Unknown \<and>
   http_status (fst (upload_POST quiet_world txt_request fresh_upload)) = 400 \<and>
   \<not> list_ex fs_mutation
       (events_since fresh_upload (snd (upload_POST quiet_world txt_request fresh_upload)))"
proof -
  have a: "req_formData txt_request = Inr (FileEntry \<lparr>file_name = ''notes.txt'', file_size = 12\<rparr>)"
    by (simp add: txt_request_def)
  have b: "detectFileType (file_name \<lparr>file_name = ''notes.txt'', file_size = 12\<rparr>) = Unknown"
    by (simp add: upload_eval)
  from unknown_upload_is_rejected_early [OF a b, of quiet_world fresh_upload] a b
  show ?thesis by (simp add: unsupported_format_def json_response_def)
qed

text \<open>
  Claim C4. Take any upload request in which the extraction command has run and
  returned (the tool exited with success) and no member name is recovered from what it
  printed. Then the request ends in an error: the response has status 500 and carries
  the message that the archive holds no files, and the status singleton is in the error
  phase with that message.
\<close>

theorem empty_extraction_is_an_error:
  assumes ev: "EvExec c (Inr (out, err)) \<in> set (events_since s (snd (upload_POST w req s)))"
    and kind: "extract_command t filePath targetDir = Some c"
    and none: "parse_items t (out @ err) = []"
  shows "fst (upload_POST w req s) = json_response 500 (StatusError empty_archive_message) \<and>
         status (upload_GET (snd (upload_POST w req s))) = UploadError \<and>
         error (upload_GET (snd (upload_POST w req s))) = empty_archive_message"
proof -
  obtain res s1 where utry: "upload_try w req s = (res, s1)"
    by (cases "upload_try w req s")
  have post: "upload_POST w req s =
      (case res of Inr resp \<Rightarrow> (resp, s1) | Inl e \<Rightarrow> upload_catch e s1)"
    by (simp add: upload_POST_def utry split: sum.splits)
  have tail: "events_since s (snd (upload_POST w req s)) =
      events_since s s1 @ (case res of Inr resp \<Rightarrow> [] | Inl e \<Rightarrow> [EvLog ''Upload error:''])"
    if "length (trace s) \<le> length (trace s1)"
    using that by (simp add: post events_since_def upload_catch_eq split: sum.splits)
  from utry show ?thesis
  proof (cases rule: upload_try_run)
    case (rejected pre)
    with tail have "events_since s (snd (upload_POST w req s)) =
        pre @ (case res of Inr resp \<Rightarrow> [] | Inl e \<Rightarrow> [EvLog ''Upload error:''])"
      by (simp add: events_since_def)
    with ev not_exec_member [OF rejected(2)] show ?thesis
      by (auto split: sum.splits)
  next
    case (staged upl t' tempDir fp s2 pre)
    note nx = not_exec_member [OF staged(5)]
    from staged(7) staged(3) show ?thesis
    proof (cases rule: extract_and_list_run)
      case (tool_failed cmd e)
      with staged(4) tail have "events_since s (snd (upload_POST w req s)) =
          pre @ [EvLog (extract_log t'), EvExec cmd (Inl e), EvLog ''Extraction error:'']"
        by (simp add: events_since_def)
      with ev nx show ?thesis by auto
    next
      case (empty cmd out' err')
      with post show ?thesis by (simp add: upload_GET_def)
    next
      case (listing_threw cmd out' err' e post')
      with staged(4) tail have evs: "events_since s (snd (upload_POST w req s)) =
          pre @ [EvLog (extract_log t'), EvExec cmd (Inr (out', err')),
                 EvLog ''Extracted items from archive''] @ post' @ [EvLog ''Upload error:'']"
        by (simp add: events_since_def)
      from ev evs nx have "(c = cmd \<and> out = out' \<and> err = err') \<or> EvExec c (Inr (out, err)) \<in> set post'"
        by auto
      then show ?thesis
      proof
        assume same: "c = cmd \<and> out = out' \<and> err = err'"
        with kind listing_threw(1) have "t = t'" by (auto dest: extract_command_kind)
        with same none listing_threw(2) show ?thesis by simp
      next
        assume "EvExec c (Inr (out, err)) \<in> set post'"
        from listing_event_member [OF listing_threw(4) this] extract_command_not_find [OF kind]
        show ?thesis by simp
      qed
    next
      case (extracted cmd out' err' fout ferr dout derr cout cerr h r)
      with staged(4) tail have evs: "events_since s (snd (upload_POST w req s)) =
          pre @ [EvLog (extract_log t'), EvExec cmd (Inr (out', err')),
            EvLog ''Extracted items from archive'',
            EvLog ''Reading file list...'', EvExec (find_files_command targetDir') (Inr (fout, ferr)),
            EvExec (find_dirs_command targetDir') (Inr (dout, derr)),
            EvLog ''Found files and directories'',
            EvExec (count_files_command targetDir') (Inr (cout, cerr))] @
           stat_events w targetDir' (take 500 (nonblank_lines fout)) h @
           EvRm tempDir r # cleanup_log r @ [EvLog ''Upload and extraction completed'']"
        if "targetDir' = join (cwd w) ''extracted-system''" for targetDir'
        using that by (simp add: events_since_def)
      from ev evs [OF refl] nx stat_events_no_exec cleanup_log_no_exec
      have "(c = cmd \<and> out = out' \<and> err = err') \<or>
            c = find_files_command (join (cwd w) ''extracted-system'') \<or>
            c = find_dirs_command (join (cwd w) ''extracted-system'') \<or>
            c = count_files_command (join (cwd w) ''extracted-system'')"
        by auto
      then show ?thesis
      proof (elim disjE)
        assume same: "c = cmd \<and> out = out' \<and> err = err'"
        with kind extracted(1) have "t = t'" by (auto dest: extract_command_kind)
        with same none extracted(2) show ?thesis by simp
      qed (use extract_command_not_find [OF kind] find_commands_start in auto)
    qed
  qed
qed

text \<open>The claim for a \<open>tar\<close> that succeeds and prints nothing.\<close>

theorem empty_extraction_is_an_error_witness:
  "EvExec (''tar -xvf '' @ quoted ''/tmp/upload-1700000000/upload.tar'' @ '' -C '' @
           quoted ''/app/extracted-system'' @ '' 2>&1'') (Inr ([], []))
     \<in> set (events_since fresh_upload (snd (upload_POST quiet_world tar_request fresh_upload))) \<and>
   parse_items Tar ([] @ []) = [] \<and>
   http_status (fst (upload_POST quiet_world tar_request fresh_upload)) = 500 \<and>
   status (upload_GET (snd (upload_POST quiet_world tar_request fresh_upload))) = UploadError \<and>
   error (upload_GET (snd (upload_POST quiet_world tar_request fresh_upload))) =
     empty_archive_message"
proof -
  have ev: "EvExec (''tar -xvf '' @ quoted ''/tmp/upload-1700000000/upload.tar'' @ '' -C '' @
           quoted ''/app/extracted-system'' @ '' 2>&1'') (Inr ([], []))
     \<in> set (events_since fresh_upload (snd (upload_POST quiet_world tar_request fresh_upload)))"
    by (simp add: upload_eval text_eval)
  have kind: "extract_command Tar ''/tmp/upload-1700000000/upload.tar'' ''/app/extracted-system'' =
      Some (''tar -xvf '' @ quoted ''/tmp/upload-1700000000/upload.tar'' @ '' -C '' @
           quoted ''/app/extracted-system'' @ '' 2>&1'')"
    by (simp add: extract_command_def)
  have none: "parse_items Tar ([] @ []) = []"
    by (simp add: text_eval)
  from empty_extraction_is_an_error [OF ev kind none] ev none
  show ?thesis by (simp add: json_response_def)
qed

text \<open>
  Claim C5 as stated fails, twice. When the extraction command is rejected, the request
  answers 500 and has created the staging directory and written the upload into it, but
  never tries to remove it. And when the removal itself is rejected on a successful
  request, nothing is logged: the removal is the last event before the closing log line.
\<close>

theorem staging_dir_survives_failure:
  "http_status (fst (upload_POST broken_tools_world tar_request fresh_upload)) = 500 \<and>
   first_mkdir (events_since fresh_upload
     (snd (upload_POST broken_tools_world tar_request fresh_upload))) =
     Some ''/tmp/upload-1700000000'' \<and>
   EvWrite ''/tmp/upload-1700000000/upload.tar'' ''bytes'' None
     \<in> set (events_since fresh_upload
         (snd (upload_POST broken_tools_world tar_request fresh_upload))) \<and>
   \<not> removal_attempted ''/tmp/upload-1700000000''
       (events_since fresh_upload (snd (upload_POST broken_tools_world tar_request fresh_upload))) \<and>
   http_status (fst (upload_POST busy_tmp_world tar_request fresh_upload)) = 200 \<and>
   take 2 (rev (events_since fresh_upload
     (snd (upload_POST busy_tmp_world tar_request fresh_upload)))) =
     [EvLog ''Upload and extraction completed'',
      EvRm ''/tmp/upload-1700000000'' (Some ''EBUSY'')]"
  by (simp add: upload_eval text_eval broken_tools_world_def busy_tmp_world_def
      listing_world_def removal_attempted_def)

text \<open>
  Claim C5, amended. For every upload request that answers 200, the removal of the
  staging directory (the first directory the request created) is attempted before the
  request completes. When the removal succeeds, one line is logged; when it is rejected,
  nothing is logged and the response is still the success response.
\<close>

theorem staging_dir_removed_on_success:
  assumes "http_status (fst (upload_POST w req s)) = 200"
  shows "\<exists>d r front.
           first_mkdir (events_since s (snd (upload_POST w req s))) = Some d \<and>
           events_since s (snd (upload_POST w req s)) =
             front @ EvRm d r # cleanup_log r @ [EvLog ''Upload and extraction completed'']"
  using assms
proof (cases rule: upload_POST_200)
  case (1 upl t tempDir fp pre cmd out err fout ferr dout derr cout cerr h r)
  from 1(4) have "first_mkdir (events_since s (snd (upload_POST w req s))) = Some tempDir"
    unfolding 1(7) by (simp add: first_mkdir_append)
  moreover have "events_since s (snd (upload_POST w req s)) =
      (pre @
       [EvLog (extract_log t), EvExec cmd (Inr (out, err)), EvLog ''Extracted items from archive'',
        EvLog ''Reading file list...'',
        EvExec (find_files_command (join (cwd w) ''extracted-system'')) (Inr (fout, ferr)),
        EvExec (find_dirs_command (join (cwd w) ''extracted-system'')) (Inr (dout, derr)),
        EvLog ''Found files and directories'',
        EvExec (count_files_command (join (cwd w) ''extracted-system'')) (Inr (cout, cerr))] @
       stat_events w (join (cwd w) ''extracted-system'') (take 500 (nonblank_lines fout)) h) @
      EvRm tempDir r # cleanup_log r @ [EvLog ''Upload and extraction completed'']"
    unfolding 1(7) by (simp only: append_assoc)
  ultimately show ?thesis by blast
qed

text \<open>The amended claim in the world where nothing under \<open>/tmp\<close> can be removed.\<close>

theorem staging_dir_removed_on_success_witness:
  "http_status (fst (upload_POST busy_tmp_world tar_request fresh_upload)) = 200 \<and>
   (\<exists>d r front.
      first_mkdir (events_since fresh_upload
        (snd (upload_POST busy_tmp_world tar_request fresh_upload))) = Some d \<and>
      events_since fresh_upload (snd (upload_POST busy_tmp_world tar_request fresh_upload)) =
        front @ EvRm d r # cleanup_log r @ [EvLog ''Upload and extraction completed''])"
proof -
  have ok: "http_status (fst (upload_POST busy_tmp_world tar_request fresh_upload)) = 200"
    by (simp add: upload_eval text_eval busy_tmp_world_def listing_world_def)
  from staging_dir_removed_on_success [OF ok] ok show ?thesis by blast
qed



section \<open>The invariant of the upload status\<close>














end
